theory Spec2Isabelle
  imports Complex_Main
begin

section \<open>The mean-reversion scalper (mt5\_scalper.py)\<close>

text \<open>
  A shallow embedding of the decision loop of \<^verbatim>\<open>mt5_scalper.py\<close>.

  Numbers: Python and numpy floats are modelled as \<^typ>\<open>real\<close>, and a float that may be
  NaN as \<^typ>\<open>real option\<close> with \<open>None\<close> for NaN. Rounding error of IEEE arithmetic is
  outside the model. Infinities arise only from the division of line 132 and are modelled
  there.

  Configuration: the module-level constants are the fields of a record \<open>config\<close>;
  \<open>CONFIG\<close> holds the values written in the source.

  Broker and clock: every call of the MetaTrader5 module and of \<^verbatim>\<open>datetime.now()\<close>
  reads its answer from a record \<open>env\<close>, one field per call site, so that one loop
  iteration is a function of the configuration, the answers and the module state.

  Exceptions are values of the type \<open>error\<close>; effects (log lines, sleeps, orders handed to
  the broker) are collected in a list.
\<close>

subsection \<open>Configuration\<close>

record config =
  LOOKBACK :: nat
  Z_ENTER :: real
  Z_EXIT :: real
  RISK_PER_TRADE :: real
  MAX_DAILY_LOSS :: real
  MAX_LOSS_STREAK :: int
  VOL_MAX :: real
  SPREAD_MAX :: real
  MIN_TRADE_INTERVAL :: int
  DEVIATION :: int
  MAGIC :: int
  DRY_RUN :: bool
  TRADE_HOURS :: "int \<times> int"

definition SYMBOL :: string where
  "SYMBOL = ''BTCUSDm''"

definition CONFIG :: config where
  "CONFIG = \<lparr> LOOKBACK = 120, Z_ENTER = 12 / 10, Z_EXIT = 3 / 10,
      RISK_PER_TRADE = 3 / 1000, MAX_DAILY_LOSS = 2 / 100, MAX_LOSS_STREAK = 3,
      VOL_MAX = 4 / 1000, SPREAD_MAX = 50, MIN_TRADE_INTERVAL = 180,
      DEVIATION = 20, MAGIC = 777001, DRY_RUN = True, TRADE_HOURS = (8, 22) \<rparr>"

subsection \<open>Dates and times\<close>

text \<open>
  A naive \<^verbatim>\<open>datetime\<close> is the number of microseconds since midnight of day 0; its
  date is the day number. Subtraction gives a \<^verbatim>\<open>timedelta\<close>, which Python keeps
  normalised as days, seconds (0 to 86399) and microseconds (0 to 999999).
\<close>

type_synonym datetime = int

definition us_per_second :: int where
  "us_per_second = 1000000"

definition us_per_day :: int where
  "us_per_day = 86400 * us_per_second"

definition mk_datetime :: "int \<Rightarrow> int \<Rightarrow> int \<Rightarrow> int \<Rightarrow> datetime" where
  "mk_datetime day h m s = day * us_per_day + ((h * 60 + m) * 60 + s) * us_per_second"

definition dt_date :: "datetime \<Rightarrow> int" where
  "dt_date t = t div us_per_day"

definition dt_hour :: "datetime \<Rightarrow> int" where
  "dt_hour t = (t mod us_per_day) div (3600 * us_per_second)"

record timedelta =
  days :: int
  seconds :: int
  microseconds :: int

definition dt_sub :: "datetime \<Rightarrow> datetime \<Rightarrow> timedelta" where
  "dt_sub a b = \<lparr> days = (a - b) div us_per_day,
                  seconds = ((a - b) mod us_per_day) div us_per_second,
                  microseconds = (a - b) mod us_per_second \<rparr>"

definition total_seconds :: "timedelta \<Rightarrow> real" where
  "total_seconds d =
     real_of_int (days d) * 86400 + real_of_int (seconds d)
       + real_of_int (microseconds d) / 1000000"

subsection \<open>Market data, broker answers, orders\<close>

datatype error =
    AttributeError | KeyError | IndexError | TypeError | ZeroDivisionError
  | OverflowError | ValueError

record bar =
  time :: int
  open_price :: real
  high :: real
  low :: real
  close :: real

record tick =
  bid :: real
  ask :: real

record symbol_info =
  point :: real
  trade_tick_value :: real
  trade_tick_size :: real
  volume_min :: real
  volume_max :: real
  volume_step :: real

record position =
  ptype :: int
  volume :: real

record account_info =
  balance :: real
  equity :: real

datatype trade_action = TRADE_ACTION_DEAL
datatype order_type = ORDER_TYPE_BUY | ORDER_TYPE_SELL
datatype order_filling = ORDER_FILLING_FOK

text \<open>A stop-loss or take-profit field of a request: Python's \<open>None\<close>, a price, or NaN.\<close>

datatype level = NoLevel | Level real | NaNLevel

record request =
  action :: trade_action
  symbol :: string
  req_volume :: real
  req_type :: order_type
  price :: real
  sl :: level
  tp :: level
  deviation :: int
  magic :: int
  comment :: string
  type_filling :: order_filling

definition TRADE_RETCODE_DONE :: int where
  "TRADE_RETCODE_DONE = 10009"

datatype log_msg =
    BotStarted
  | MaxDailyLossHit
  | LossStreakLock
  | ExitSignal
  | DryRunOrder request
  | ErrorMsg error

datatype effect = Log log_msg | Sleep nat | OrderSend request

text \<open>
  The answers of one loop iteration. \<open>symbol_info_tick k\<close> is the quote read by the
  safety gate for \<open>k = 0\<close> and by the \<open>k\<close>-th call of \<open>send_order\<close> for \<open>k > 0\<close>;
  \<open>symbol_info k\<close> is the symbol description read by the safety gate (\<open>k = 0\<close>) and by
  \<open>compute_lot\<close> (\<open>k = 1\<close>); \<open>order_send k\<close> is the return code the broker gives to the
  \<open>k\<close>-th order (\<open>None\<close> when \<^verbatim>\<open>mt5.order_send\<close> returns \<open>None\<close>).
\<close>

record env =
  mt5_account_info :: "account_info option"
  now_day_test :: datetime
  now_day_set :: datetime
  copy_rates_from :: "nat \<Rightarrow> bar list option"
  now_gate :: datetime
  symbol_info_tick :: "nat \<Rightarrow> tick option"
  mt5_symbol_info :: "nat \<Rightarrow> symbol_info option"
  positions_get :: "position list option"
  order_send :: "nat \<Rightarrow> request \<Rightarrow> int option"
  now_trade :: datetime

subsection \<open>Module state\<close>

record state =
  last_trade_time :: "datetime option"
  loss_streak :: int
  peak_equity :: "real option"
  day_start :: int
  start_equity :: "real option"

definition initial_state :: "datetime \<Rightarrow> state" where
  "initial_state import_time =
     \<lparr> last_trade_time = None, loss_streak = 0, peak_equity = None,
       day_start = dt_date import_time, start_equity = None \<rparr>"

subsection \<open>Series operations (pandas)\<close>

definition iloc_last :: "'a list \<Rightarrow> error + 'a" where
  "iloc_last xs = (if xs = [] then Inl IndexError else Inr (last xs))"

definition mean :: "real list \<Rightarrow> real option" where
  "mean xs = (if xs = [] then None else Some (sum_list xs / real (length xs)))"

text \<open>The sample standard deviation (\<open>ddof = 1\<close>): NaN for fewer than two values.\<close>

definition std :: "real list \<Rightarrow> real option" where
  "std xs =
     (if length xs < 2 then None
      else Some (sqrt (sum_list (map (\<lambda>x. (x - sum_list xs / real (length xs))\<^sup>2) xs)
                       / (real (length xs) - 1))))"

definition dropna :: "'a option list \<Rightarrow> 'a list" where
  "dropna xs = concat (map (\<lambda>x. case x of None \<Rightarrow> [] | Some v \<Rightarrow> [v]) xs)"

definition window :: "nat \<Rightarrow> nat \<Rightarrow> 'a list \<Rightarrow> 'a list" where
  "window w i xs = take w (drop (Suc i - w) xs)"

text \<open>
  \<open>rolling(w).agg()\<close> with the default \<open>min_periods = w\<close>: entry \<open>i\<close> is NaN unless the
  \<open>w\<close> entries ending at \<open>i\<close> exist and none of them is NaN.
\<close>

definition rolling :: "nat \<Rightarrow> (real list \<Rightarrow> real option) \<Rightarrow> real option list \<Rightarrow> real option list" where
  "rolling w agg xs =
     map (\<lambda>i. if Suc i < w then None
              else (case those (window w i xs) of None \<Rightarrow> None | Some ys \<Rightarrow> agg ys))
         [0..<length xs]"

fun pct_change :: "real list \<Rightarrow> real option list" where
  "pct_change [] = []"
| "pct_change (c # cs) =
     None # map (\<lambda>(prev, cur). if prev = 0 then None else Some (cur / prev - 1))
               (zip (c # cs) cs)"

subsection \<open>Utilities\<close>

definition account :: "env \<Rightarrow> error + (real \<times> real)" where
  "account e =
     (case mt5_account_info e of
        None \<Rightarrow> Inl AttributeError
      | Some info \<Rightarrow> Inr (balance info, equity info))"

definition rates :: "env \<Rightarrow> nat \<Rightarrow> error + bar list" where
  "rates e n =
     (case copy_rates_from e n of
        None \<Rightarrow> Inl KeyError
      | Some r \<Rightarrow> Inr r)"

text \<open>
  Lines 80 to 84. The deviation is read exactly here, so it is zero for a constant series.
  pandas computes it on doubles, where the mean of equal values need not be that value (the
  mean of three times 0.1 is not 0.1): the deviation is then tiny but not zero, and the guard
  of line 82 does not fire. That case lies outside this definition.
\<close>

definition zscore :: "real list \<Rightarrow> error + real" where
  "zscore series =
     (case std series of
        None \<Rightarrow> Inr 0
      | Some sd \<Rightarrow>
          if sd = 0 then Inr 0
          else (case iloc_last series of
                  Inl err \<Rightarrow> Inl err
                | Inr x \<Rightarrow>
                    (case mean series of
                       None \<Rightarrow> Inl IndexError
                     | Some m \<Rightarrow> Inr ((x - m) / sd))))"

definition has_position :: "env \<Rightarrow> position list option" where
  "has_position e =
     (case positions_get e of
        None \<Rightarrow> None
      | Some pos \<Rightarrow> if pos = [] then None else Some pos)"

subsection \<open>Safety filters\<close>

definition volatility :: "bar list \<Rightarrow> error + real option" where
  "volatility df = iloc_last (rolling 20 std (pct_change (map close df)))"

definition safety_check ::
  "config \<Rightarrow> datetime option \<Rightarrow> datetime \<Rightarrow> bar list \<Rightarrow> tick option \<Rightarrow> symbol_info option
     \<Rightarrow> error + (bool \<times> string)" where
  "safety_check cfg ltt now df tk info =
     (if \<not> (fst (TRADE_HOURS cfg) \<le> dt_hour now \<and> dt_hour now \<le> snd (TRADE_HOURS cfg))
      then Inr (False, ''outside trade hours'')
      else if (case ltt of None \<Rightarrow> False
               | Some t \<Rightarrow> seconds (dt_sub now t) < MIN_TRADE_INTERVAL cfg)
      then Inr (False, ''cooldown'')
      else (case volatility df of
              Inl err \<Rightarrow> Inl err
            | Inr vol \<Rightarrow>
                if (case vol of None \<Rightarrow> False | Some v \<Rightarrow> v > VOL_MAX cfg)
                then Inr (False, ''volatility too high'')
                else (case tk of
                        None \<Rightarrow> Inl AttributeError
                      | Some t \<Rightarrow>
                          (case info of
                             None \<Rightarrow> Inl AttributeError
                           | Some i \<Rightarrow>
                               if ask t - bid t > SPREAD_MAX cfg * point i
                               then Inr (False, ''spread too wide'')
                               else Inr (True, ''ok'')))))"

subsection \<open>Position sizing\<close>

text \<open>Python's \<open>round(x, 8)\<close>: to the nearest multiple of \<open>10\<^sup>-\<^sup>8\<close>, ties to even.\<close>

definition round_half_even :: "real \<Rightarrow> int" where
  "round_half_even x =
     (if x - of_int \<lfloor>x\<rfloor> < 1 / 2 then \<lfloor>x\<rfloor>
      else if x - of_int \<lfloor>x\<rfloor> > 1 / 2 then \<lfloor>x\<rfloor> + 1
      else if even \<lfloor>x\<rfloor> then \<lfloor>x\<rfloor> else \<lfloor>x\<rfloor> + 1)"

definition round8 :: "real \<Rightarrow> real" where
  "round8 x = of_int (round_half_even (x * 100000000)) / 100000000"

text \<open>
  Line 132. The stop distance of line 228 is a numpy float, so the quotient of line 132 is a
  numpy float too, and numpy raises nothing when the divisor is zero: the quotient is then an
  infinity, or NaN when the dividend is zero as well. A zero of the model is read as \<open>+0.0\<close>,
  so the divisor is \<open>-0.0\<close> when an odd number of its factors is negative. The stop distance
  is \<open>None\<close> when it is NaN, and then so is the quotient.
\<close>

datatype quotient = Finite real | PlusInf | MinusInf | NaN

definition np_divide :: "real \<Rightarrow> real \<Rightarrow> bool \<Rightarrow> quotient" where
  "np_divide x y negative =
     (if y \<noteq> 0 then Finite (x / y)
      else if x = 0 then NaN
      else if (x < 0) = negative then PlusInf else MinusInf)"

text \<open>
  Line 133, \<open>max(lo, min(hi, x))\<close>. Python's \<open>min(hi, x)\<close> is \<open>x\<close> when \<open>x < hi\<close> and \<open>hi\<close>
  otherwise, \<open>max(lo, m)\<close> is \<open>m\<close> when \<open>m > lo\<close> and \<open>lo\<close> otherwise, and a comparison with
  NaN is false. The result is the numpy quotient when that lies strictly between the bounds,
  and one of the bounds, a Python float, otherwise.
\<close>

datatype lot = PyFloat real | NpFloat real

definition clamp :: "real \<Rightarrow> real \<Rightarrow> quotient \<Rightarrow> lot" where
  "clamp lo hi q =
     (case q of
        Finite x \<Rightarrow>
          if x < hi then (if x > lo then NpFloat x else PyFloat lo)
          else (if hi > lo then PyFloat hi else PyFloat lo)
      | PlusInf \<Rightarrow> (if hi > lo then PyFloat hi else PyFloat lo)
      | MinusInf \<Rightarrow> PyFloat lo
      | NaN \<Rightarrow> (if hi > lo then PyFloat hi else PyFloat lo))"

text \<open>
  Lines 124 to 136. The division of line 129 is one of Python floats and raises
  \<open>ZeroDivisionError\<close> for a zero tick size. At line 136 a zero step raises
  \<open>ZeroDivisionError\<close> under a Python float; under a numpy float the quotient is an infinity
  or NaN, which \<open>math.floor\<close> refuses with \<open>OverflowError\<close> or \<open>ValueError\<close>.
\<close>

definition compute_lot :: "config \<Rightarrow> symbol_info option \<Rightarrow> real \<Rightarrow> real option \<Rightarrow> error + real" where
  "compute_lot cfg info_opt eq stop_dist =
     (case info_opt of
        None \<Rightarrow> Inl AttributeError
      | Some info \<Rightarrow>
          if trade_tick_size info = 0 then Inl ZeroDivisionError
          else
            let value_per_price = trade_tick_value info / trade_tick_size info;
                risk_amount = eq * RISK_PER_TRADE cfg;
                lots = clamp (volume_min info) (volume_max info)
                         (case stop_dist of
                            None \<Rightarrow> NaN
                          | Some d \<Rightarrow>
                              np_divide risk_amount (d * value_per_price)
                                ((d < 0) \<noteq> ((trade_tick_value info < 0)
                                               \<noteq> (trade_tick_size info < 0))));
                step = volume_step info
            in (case lots of
                  PyFloat l \<Rightarrow>
                    if step = 0 then Inl ZeroDivisionError
                    else Inr (round8 (of_int \<lfloor>l / step\<rfloor> * step))
                | NpFloat l \<Rightarrow>
                    if step = 0 then Inl (if l = 0 then ValueError else OverflowError)
                    else Inr (round8 (of_int \<lfloor>l / step\<rfloor> * step))))"

subsection \<open>Execution\<close>

definition send_order ::
  "config \<Rightarrow> tick option \<Rightarrow> (request \<Rightarrow> int option) \<Rightarrow> string \<Rightarrow> real \<Rightarrow> level \<Rightarrow> level
     \<Rightarrow> effect list \<times> (error + bool)" where
  "send_order cfg tk broker side vol stop target =
     (case tk of
        None \<Rightarrow> ([], Inl AttributeError)
      | Some t \<Rightarrow>
          let req = \<lparr> action = TRADE_ACTION_DEAL, symbol = SYMBOL, req_volume = vol,
                      req_type = (if side = ''buy'' then ORDER_TYPE_BUY else ORDER_TYPE_SELL),
                      price = (if side = ''buy'' then ask t else bid t),
                      sl = stop, tp = target,
                      deviation = DEVIATION cfg, magic = MAGIC cfg,
                      comment = ''meanrev_safe'', type_filling = ORDER_FILLING_FOK \<rparr>
          in if DRY_RUN cfg then ([Log (DryRunOrder req)], Inr True)
             else (case broker req of
                     None \<Rightarrow> ([OrderSend req], Inl AttributeError)
                   | Some retcode \<Rightarrow> ([OrderSend req], Inr (retcode = TRADE_RETCODE_DONE))))"

subsection \<open>Main loop\<close>

text \<open>
  The exception handler of the loop body: whatever was changed and done before the
  exception stays, then the error is logged and the loop sleeps ten seconds.
\<close>

definition handler :: "state \<Rightarrow> effect list \<Rightarrow> error \<Rightarrow> state \<times> effect list" where
  "handler s effs err = (s, effs @ [Log (ErrorMsg err), Sleep 10])"

text \<open>Lines 181 to 189: first-iteration initialisation and the daily reset.\<close>

definition init_equity :: "real \<Rightarrow> state \<Rightarrow> state" where
  "init_equity eq s =
     (if start_equity s = None
      then s\<lparr> start_equity := Some eq, peak_equity := Some eq \<rparr>
      else s)"

definition daily_reset :: "env \<Rightarrow> real \<Rightarrow> state \<Rightarrow> state" where
  "daily_reset e eq s =
     (if dt_date (now_day_test e) \<noteq> day_start s
      then s\<lparr> day_start := dt_date (now_day_set e), start_equity := Some eq, loss_streak := 0 \<rparr>
      else s)"

definition bookkeeping :: "env \<Rightarrow> real \<Rightarrow> state \<Rightarrow> state" where
  "bookkeeping e eq s = daily_reset e eq (init_equity eq s)"

text \<open>Line 192; \<open>None\<close> is the \<open>ZeroDivisionError\<close> of a zero start-of-day equity.\<close>

definition daily_loss_hit :: "config \<Rightarrow> real \<Rightarrow> real \<Rightarrow> bool option" where
  "daily_loss_hit cfg start eq =
     (if start = 0 then None else Some ((start - eq) / start > MAX_DAILY_LOSS cfg))"

text \<open>Lines 211 to 213: the z-score of the detrended closes.\<close>

definition detrended :: "config \<Rightarrow> bar list \<Rightarrow> real list" where
  "detrended cfg df =
     dropna (map (\<lambda>(c, t). case t of None \<Rightarrow> None | Some m \<Rightarrow> Some (c - m))
               (zip (map close df) (rolling (LOOKBACK cfg) mean (map (Some \<circ> close) df))))"

definition signal_z :: "config \<Rightarrow> bar list \<Rightarrow> error + real" where
  "signal_z cfg df = zscore (detrended cfg df)"

text \<open>Lines 226 to 228. Python's \<open>max(atr, b)\<close> is \<open>atr\<close> when \<open>atr\<close> is NaN.\<close>

definition atr :: "bar list \<Rightarrow> error + real option" where
  "atr df = iloc_last (rolling 20 mean (map (\<lambda>b. Some (high b - low b)) df))"

definition stop_distance :: "real option \<Rightarrow> real \<Rightarrow> real option" where
  "stop_distance a p = (case a of None \<Rightarrow> None | Some v \<Rightarrow> Some (max v (p * (1 / 1000))))"

definition level_of :: "real option \<Rightarrow> level" where
  "level_of x = (case x of None \<Rightarrow> NaNLevel | Some v \<Rightarrow> Level v)"

text \<open>Lines 220 and 221: one closing order for each open position, numbered from \<open>k\<close>.\<close>

fun close_positions :: "config \<Rightarrow> env \<Rightarrow> nat \<Rightarrow> position list \<Rightarrow> effect list \<times> error option" where
  "close_positions cfg e k [] = ([], None)"
| "close_positions cfg e k (p # ps) =
     (case send_order cfg (symbol_info_tick e k) (order_send e k)
             (if ptype p = 0 then ''sell'' else ''buy'') (volume p) NoLevel NoLevel of
        (effs, Inl err) \<Rightarrow> (effs, Some err)
      | (effs, Inr ok) \<Rightarrow>
          (case close_positions cfg e (Suc k) ps of
             (effs', r) \<Rightarrow> (effs @ effs', r)))"

text \<open>Lines 231 to 233 and 236 to 238: size the order, send it, stamp the time.\<close>

definition enter :: "config \<Rightarrow> env \<Rightarrow> state \<Rightarrow> real \<Rightarrow> string \<Rightarrow> real \<Rightarrow> real option
     \<Rightarrow> state \<times> effect list" where
  "enter cfg e s eq side p sd =
     (case compute_lot cfg (mt5_symbol_info e 1) eq sd of
        Inl err \<Rightarrow> handler s [] err
      | Inr lots \<Rightarrow>
          (case send_order cfg (symbol_info_tick e 1) (order_send e 1) side lots
                  (level_of (if side = ''sell'' then map_option (\<lambda>d. p + d) sd
                             else map_option (\<lambda>d. p - d) sd))
                  (level_of (if side = ''sell'' then map_option (\<lambda>d. p - d * (15 / 10)) sd
                             else map_option (\<lambda>d. p + d * (15 / 10)) sd)) of
             (effs, Inl err) \<Rightarrow> handler s effs err
           | (effs, Inr ok) \<Rightarrow> (s\<lparr> last_trade_time := Some (now_trade e) \<rparr>, effs @ [Sleep 5])))"

text \<open>Lines 215 to 240: exit, entry or nothing, for a z-score \<open>z\<close>.\<close>

definition execute :: "config \<Rightarrow> env \<Rightarrow> state \<Rightarrow> real \<Rightarrow> bar list \<Rightarrow> real \<Rightarrow> state \<times> effect list" where
  "execute cfg e s eq df z =
     (case has_position e of
        Some pos \<Rightarrow>
          if \<bar>z\<bar> \<le> Z_EXIT cfg
          then (case close_positions cfg e 1 pos of
                  (effs, Some err) \<Rightarrow> handler s (Log ExitSignal # effs) err
                | (effs, None) \<Rightarrow>
                    (s\<lparr> last_trade_time := Some (now_trade e) \<rparr>,
                     Log ExitSignal # effs @ [Sleep 5]))
          else (s, [Sleep 5])
      | None \<Rightarrow>
          (case iloc_last (map close df) of
             Inl err \<Rightarrow> handler s [] err
           | Inr p \<Rightarrow>
               (case atr df of
                  Inl err \<Rightarrow> handler s [] err
                | Inr a \<Rightarrow>
                    if z \<ge> Z_ENTER cfg
                    then enter cfg e s eq ''sell'' p (stop_distance a p)
                    else if z \<le> - Z_ENTER cfg
                    then enter cfg e s eq ''buy'' p (stop_distance a p)
                    else (s, [Sleep 5]))))"

text \<open>Lines 203 to 240: market data, safety gate, signal, execution.\<close>

definition decide :: "config \<Rightarrow> env \<Rightarrow> state \<Rightarrow> real \<Rightarrow> state \<times> effect list" where
  "decide cfg e s eq =
     (case rates e (LOOKBACK cfg + 5) of
        Inl err \<Rightarrow> handler s [] err
      | Inr df \<Rightarrow>
          (case safety_check cfg (last_trade_time s) (now_gate e) df
                  (symbol_info_tick e 0) (mt5_symbol_info e 0) of
             Inl err \<Rightarrow> handler s [] err
           | Inr (ok, reason) \<Rightarrow>
               if \<not> ok then (s, [Sleep 5])
               else (case signal_z cfg df of
                       Inl err \<Rightarrow> handler s [] err
                     | Inr z \<Rightarrow> execute cfg e s eq df z)))"

text \<open>One pass through the body of \<open>while True\<close> (lines 178 to 244).\<close>

definition iteration :: "config \<Rightarrow> env \<Rightarrow> state \<Rightarrow> state \<times> effect list" where
  "iteration cfg e s =
     (case account e of
        Inl err \<Rightarrow> handler s [] err
      | Inr (bal, eq) \<Rightarrow>
          let s' = bookkeeping e eq s
          in (case start_equity s' of
                None \<Rightarrow> handler s' [] TypeError
              | Some start \<Rightarrow>
                  (case daily_loss_hit cfg start eq of
                     None \<Rightarrow> handler s' [] ZeroDivisionError
                   | Some True \<Rightarrow> (s', [Log MaxDailyLossHit, Sleep 300])
                   | Some False \<Rightarrow>
                       if loss_streak s' \<ge> MAX_LOSS_STREAK cfg
                       then (s', [Log LossStreakLock, Sleep 900])
                       else decide cfg e s' eq)))"

text \<open>
  The states the loop can be in: the module's initial state, and every state an
  iteration leads to, whatever the broker and the clock answer.
\<close>

inductive reachable :: "config \<Rightarrow> state \<Rightarrow> bool" for cfg :: config where
  start: "reachable cfg (initial_state t)"
| step: "reachable cfg s \<Longrightarrow> reachable cfg (fst (iteration cfg e s))"

text \<open>Every path through the decision cycle ends with the short sleep or the error sleep.\<close>

definition ends_iteration :: "effect list \<Rightarrow> bool" where
  "ends_iteration effs = (effs \<noteq> [] \<and> (last effs = Sleep 5 \<or> last effs = Sleep 10))"

subsection \<open>Example data\<close>

definition quiet_bar :: bar where
  "quiet_bar = \<lparr> time = 0, open_price = 100, high = 100, low = 100, close = 100 \<rparr>"

definition flat_tick :: tick where
  "flat_tick = \<lparr> bid = 100, ask = 100 \<rparr>"

definition plain_info :: symbol_info where
  "plain_info = \<lparr> point = 1 / 100, trade_tick_value = 1, trade_tick_size = 1 / 100,
      volume_min = 1 / 100, volume_max = 10, volume_step = 1 / 100 \<rparr>"

text \<open>A state in the middle of day 100, with a start-of-day equity of 10000.\<close>

definition midday_state :: state where
  "midday_state = \<lparr> last_trade_time = None, loss_streak = 0, peak_equity = Some 10000,
      day_start = 100, start_equity = Some 10000 \<rparr>"

text \<open>Noon of day 100, an account with the given equity, and a broker that answers nothing else.\<close>

definition silent_env :: "real \<Rightarrow> env" where
  "silent_env eq = \<lparr> mt5_account_info = Some \<lparr> balance = 10000, equity = eq \<rparr>,
      now_day_test = mk_datetime 100 12 0 0, now_day_set = mk_datetime 100 12 0 0,
      copy_rates_from = (\<lambda>n. None), now_gate = mk_datetime 100 12 0 0,
      symbol_info_tick = (\<lambda>k. None), mt5_symbol_info = (\<lambda>k. None),
      positions_get = None, order_send = (\<lambda>k r. None),
      now_trade = mk_datetime 100 12 0 0 \<rparr>"

text \<open>A symbol whose minimum volume is not a whole number of volume steps.\<close>

definition coarse_info :: symbol_info where
  "coarse_info = \<lparr> point = 1 / 100, trade_tick_value = 1, trade_tick_size = 1 / 100,
      volume_min = 15 / 100, volume_max = 10, volume_step = 1 / 10 \<rparr>"

text \<open>Three in the morning of day 100, with a broker that returns no bars and no quote.\<close>

definition night_env :: env where
  "night_env = \<lparr> mt5_account_info = Some \<lparr> balance = 10000, equity = 10000 \<rparr>,
      now_day_test = mk_datetime 100 3 0 0, now_day_set = mk_datetime 100 3 0 0,
      copy_rates_from = (\<lambda>n. Some []), now_gate = mk_datetime 100 3 0 0,
      symbol_info_tick = (\<lambda>k. None), mt5_symbol_info = (\<lambda>k. None),
      positions_get = None, order_send = (\<lambda>k r. None),
      now_trade = mk_datetime 100 3 0 0 \<rparr>"

subsection \<open>Reading an iteration's effects\<close>

text \<open>
  The order requests an iteration built, in order: those handed to the broker and those
  only reported in dry-run mode.
\<close>

fun request_of :: "effect \<Rightarrow> request list" where
  "request_of (OrderSend r) = [r]"
| "request_of (Log (DryRunOrder r)) = [r]"
| "request_of other = []"

definition requests_of :: "effect list \<Rightarrow> request list" where
  "requests_of effs = concat (map request_of effs)"

text \<open>The order requests handed to the broker (\<^verbatim>\<open>mt5.order_send\<close>).\<close>

fun dispatch_of :: "effect \<Rightarrow> request list" where
  "dispatch_of (OrderSend r) = [r]"
| "dispatch_of other = []"

definition dispatched_of :: "effect list \<Rightarrow> request list" where
  "dispatched_of effs = concat (map dispatch_of effs)"

text \<open>The side, volume, stop-loss and take-profit of a request.\<close>

definition order_terms :: "request \<Rightarrow> order_type \<times> real \<times> level \<times> level" where
  "order_terms r = (req_type r, req_volume r, sl r, tp r)"

text \<open>
  The path condition of lines 179 to 213: the account answers \<open>acc\<close>, neither breaker
  trips, the broker returns the bars \<open>df\<close>, every safety gate passes and the z-score of
  the detrended closes is \<open>z\<close>.
\<close>

definition reaches_signal :: "config \<Rightarrow> env \<Rightarrow> state \<Rightarrow> account_info \<Rightarrow> bar list \<Rightarrow> real \<Rightarrow> bool" where
  "reaches_signal cfg e s acc df z =
     (mt5_account_info e = Some acc
      \<and> (case start_equity (bookkeeping e (equity acc) s) of
            None \<Rightarrow> False
          | Some start \<Rightarrow> daily_loss_hit cfg start (equity acc) = Some False)
      \<and> loss_streak (bookkeeping e (equity acc) s) < MAX_LOSS_STREAK cfg
      \<and> copy_rates_from e (LOOKBACK cfg + 5) = Some df
      \<and> safety_check cfg (last_trade_time (bookkeeping e (equity acc) s)) (now_gate e) df
           (symbol_info_tick e 0) (mt5_symbol_info e 0) = Inr (True, ''ok'')
      \<and> signal_z cfg df = Inr z)"

text \<open>
  Example bars: 119 quiet bars at 100 followed by six bars with a range of 1 around their
  closes. The closes of \<open>spike_bars\<close> end in a jump (z-score 479/338, about 1.42), those
  of \<open>calm_bars\<close> end near their trend (z-score 4/29, about 0.14).
\<close>

definition spike_bar :: "real \<Rightarrow> bar" where
  "spike_bar c = \<lparr> time = 0, open_price = c, high = c + 1 / 2, low = c - 1 / 2, close = c \<rparr>"

definition spike_bars :: "bar list" where
  "spike_bars = replicate 119 quiet_bar
      @ map spike_bar [9999 / 100, 10003 / 100, 9997 / 100, 9999 / 100, 9998 / 100, 10004 / 100]"

text \<open>The exception a call ended with, if any.\<close>

definition raised :: "error + 'a \<Rightarrow> error option" where
  "raised r = (case r of Inl err \<Rightarrow> Some err | Inr v \<Rightarrow> None)"

definition calm_bars :: "bar list" where
  "calm_bars = replicate 119 quiet_bar
      @ map spike_bar [10001 / 100, 10004 / 100, 10002 / 100, 9997 / 100, 9999 / 100, 10001 / 100]"

text \<open>A quote, two open positions, and a broker that answers every query.\<close>

definition quote :: tick where
  "quote = \<lparr> bid = 10003 / 100, ask = 10005 / 100 \<rparr>"

definition long_position :: position where
  "long_position = \<lparr> ptype = 0, volume = 5 / 100 \<rparr>"

definition short_position :: position where
  "short_position = \<lparr> ptype = 1, volume = 3 / 100 \<rparr>"

definition market_env :: "bar list \<Rightarrow> position list option \<Rightarrow> int \<Rightarrow> env" where
  "market_env df pos retcode =
     \<lparr> mt5_account_info = Some \<lparr> balance = 10000, equity = 10050 \<rparr>,
       now_day_test = mk_datetime 100 12 0 0, now_day_set = mk_datetime 100 12 0 0,
       copy_rates_from = (\<lambda>n. Some df), now_gate = mk_datetime 100 12 0 0,
       symbol_info_tick = (\<lambda>k. Some quote), mt5_symbol_info = (\<lambda>k. Some plain_info),
       positions_get = pos, order_send = (\<lambda>k r. Some retcode),
       now_trade = mk_datetime 100 12 0 1 \<rparr>"

text \<open>The source's configuration with dry-run switched off.\<close>

definition LIVE :: config where
  "LIVE = CONFIG\<lparr> DRY_RUN := False \<rparr>"

section \<open>Properties\<close>

subsection \<open>Shape of an iteration\<close>

lemma handler_ends: "ends_iteration (snd (handler s effs err))"
  by (simp add: handler_def ends_iteration_def)

lemma ends_Sleep5: "ends_iteration (effs @ [Sleep 5])"
  by (simp add: ends_iteration_def)

lemma enter_ends: "ends_iteration (snd (enter cfg e s eq side p sd))"
proof (cases "compute_lot cfg (mt5_symbol_info e 1) eq sd")
  case (Inl err)
  then show ?thesis by (simp add: enter_def handler_ends)
next
  case (Inr lots)
  then show ?thesis
    by (simp add: enter_def handler_ends ends_Sleep5 split: prod.split sum.split)
qed

lemma execute_ends: "ends_iteration (snd (execute cfg e s eq df z))"
proof (cases "has_position e")
  case None
  then show ?thesis
    by (simp add: execute_def handler_ends enter_ends ends_Sleep5 [of "[]", simplified]
        split: sum.split)
next
  case (Some pos)
  then show ?thesis
    using ends_Sleep5 [of "Log ExitSignal # effs" for effs]
    by (simp add: execute_def handler_ends ends_Sleep5 [of "[]", simplified]
        split: prod.split option.split)
qed

lemma decide_ends: "ends_iteration (snd (decide cfg e s eq))"
  by (simp add: decide_def handler_ends execute_ends ends_Sleep5 [of "[]", simplified]
      split: sum.split prod.split)

lemma ends_not_tripped: "ends_iteration effs \<Longrightarrow> effs \<noteq> [Log MaxDailyLossHit, Sleep 300]"
  by (auto simp: ends_iteration_def)

lemma mk_datetime_date: "0 \<le> h \<Longrightarrow> h < 24 \<Longrightarrow> dt_date (mk_datetime d h 0 0) = d"
  by (simp add: dt_date_def mk_datetime_def us_per_day_def us_per_second_def)

subsection \<open>Daily-loss breaker\<close>

text \<open>
  C2. When the account answers and the start-of-day equity after the bookkeeping is not
  zero, the iteration stops at the daily-loss breaker (it logs the breaker, sleeps 300
  seconds and does nothing else, the state being the one the bookkeeping left) if and
  only if (start\_equity - equity) / start\_equity is strictly greater than
  MAX\_DAILY\_LOSS. The witness runs the source's configuration from a start-of-day
  equity of 10000: at equity 9800 the breaker does not trip, at 9790 it does.
\<close>

theorem daily_loss_breaker_strict:
  assumes acc: "mt5_account_info e = Some acc"
    and st: "start_equity (bookkeeping e (equity acc) s) = Some start"
    and nz: "start \<noteq> 0"
  shows "iteration cfg e s = (bookkeeping e (equity acc) s, [Log MaxDailyLossHit, Sleep 300])
         \<longleftrightarrow> (start - equity acc) / start > MAX_DAILY_LOSS cfg"
proof (cases "(start - equity acc) / start > MAX_DAILY_LOSS cfg")
  case True
  then show ?thesis using acc st nz
    by (simp add: iteration_def account_def daily_loss_hit_def)
next
  case False
  have "snd (iteration cfg e s) \<noteq> [Log MaxDailyLossHit, Sleep 300]"
    using acc st nz False ends_not_tripped [OF decide_ends]
    by (simp add: iteration_def account_def daily_loss_hit_def Let_def)
  then show ?thesis using False by auto
qed

lemma bookkeeping_midday: "bookkeeping (silent_env eq) eq midday_state = midday_state"
  by (simp add: bookkeeping_def init_equity_def daily_reset_def midday_state_def
      silent_env_def mk_datetime_date)

theorem daily_loss_breaker_strict_witness:
  "iteration CONFIG (silent_env 9800) midday_state
     \<noteq> (midday_state, [Log MaxDailyLossHit, Sleep 300])
   \<and> iteration CONFIG (silent_env 9790) midday_state
     = (midday_state, [Log MaxDailyLossHit, Sleep 300])"
proof -
  have se: "start_equity midday_state = Some 10000"
    by (simp add: midday_state_def)
  have a: "mt5_account_info (silent_env eq) = Some \<lparr> balance = 10000, equity = eq \<rparr>" for eq
    by (simp add: silent_env_def)
  have "iteration CONFIG (silent_env 9800) midday_state
          = (midday_state, [Log MaxDailyLossHit, Sleep 300])
        \<longleftrightarrow> (10000 - 9800) / 10000 > MAX_DAILY_LOSS CONFIG"
    using daily_loss_breaker_strict [of "silent_env 9800" "\<lparr> balance = 10000, equity = 9800 \<rparr>"
        midday_state 10000 CONFIG]
    by (simp add: a bookkeeping_midday se)
  moreover have "iteration CONFIG (silent_env 9790) midday_state
          = (midday_state, [Log MaxDailyLossHit, Sleep 300])
        \<longleftrightarrow> (10000 - 9790) / 10000 > MAX_DAILY_LOSS CONFIG"
    using daily_loss_breaker_strict [of "silent_env 9790" "\<lparr> balance = 10000, equity = 9790 \<rparr>"
        midday_state 10000 CONFIG]
    by (simp add: a bookkeeping_midday se)
  ultimately show ?thesis by (simp add: CONFIG_def)
qed

subsection \<open>Cooldown\<close>

lemma seconds_shift:
  "seconds (dt_sub now (t - k * us_per_day)) = seconds (dt_sub now t)"
proof -
  have "(now - (t - k * us_per_day)) mod us_per_day = (now - t + k * us_per_day) mod us_per_day"
    by (simp add: algebra_simps)
  also have "\<dots> = (now - t) mod us_per_day" by simp
  finally show ?thesis by (simp add: dt_sub_def)
qed

lemma volatility_one_bar: "volatility [quiet_bar] = Inr None"
  by (simp add: volatility_def iloc_last_def rolling_def)

text \<open>
  C10. The cooldown test of the safety gate reads the seconds component of the elapsed
  time only: moving the last trade back by any number of whole days does not change the
  gate's answer. With the source's configuration, a last trade one day and ten seconds
  before now (86410 seconds in total, more than MIN\_TRADE\_INTERVAL = 180) fails
  the gate with the cooldown reason, while a last trade 200 seconds before now passes
  it: passing the cooldown is not monotone in the elapsed time.
\<close>

theorem cooldown_seconds_component:
  "safety_check cfg (Some (t - k * us_per_day)) now df tk info
     = safety_check cfg (Some t) now df tk info
   \<and> total_seconds (dt_sub (mk_datetime 11 12 0 10) (mk_datetime 10 12 0 0)) = 86410
   \<and> safety_check CONFIG (Some (mk_datetime 10 12 0 0)) (mk_datetime 11 12 0 10)
        [quiet_bar] (Some flat_tick) (Some plain_info) = Inr (False, ''cooldown'')
   \<and> total_seconds (dt_sub (mk_datetime 10 12 3 20) (mk_datetime 10 12 0 0)) = 200
   \<and> safety_check CONFIG (Some (mk_datetime 10 12 0 0)) (mk_datetime 10 12 3 20)
        [quiet_bar] (Some flat_tick) (Some plain_info) = Inr (True, ''ok'')"
proof (intro conjI)
  show "safety_check cfg (Some (t - k * us_per_day)) now df tk info
          = safety_check cfg (Some t) now df tk info"
    by (simp add: safety_check_def seconds_shift)
  show "total_seconds (dt_sub (mk_datetime 11 12 0 10) (mk_datetime 10 12 0 0)) = 86410"
    by (simp add: total_seconds_def mk_datetime_def us_per_day_def us_per_second_def dt_sub_def)
  show "safety_check CONFIG (Some (mk_datetime 10 12 0 0)) (mk_datetime 11 12 0 10)
          [quiet_bar] (Some flat_tick) (Some plain_info) = Inr (False, ''cooldown'')"
    by (simp add: safety_check_def CONFIG_def dt_hour_def mk_datetime_def us_per_day_def
        us_per_second_def dt_sub_def)
  show "total_seconds (dt_sub (mk_datetime 10 12 3 20) (mk_datetime 10 12 0 0)) = 200"
    by (simp add: total_seconds_def mk_datetime_def us_per_day_def us_per_second_def dt_sub_def)
  show "safety_check CONFIG (Some (mk_datetime 10 12 0 0)) (mk_datetime 10 12 3 20)
          [quiet_bar] (Some flat_tick) (Some plain_info) = Inr (True, ''ok'')"
    by (simp add: safety_check_def CONFIG_def dt_hour_def mk_datetime_def us_per_day_def
        us_per_second_def dt_sub_def volatility_one_bar flat_tick_def plain_info_def)
qed

subsection \<open>What an iteration does to the state\<close>

lemma handler_state: "fst (handler s effs err) = s"
  by (simp add: handler_def)

lemma enter_state:
  "fst (enter cfg e s eq side p sd) = s
   \<or> fst (enter cfg e s eq side p sd) = s\<lparr> last_trade_time := Some (now_trade e) \<rparr>"
proof (cases "compute_lot cfg (mt5_symbol_info e 1) eq sd")
  case (Inl err)
  then show ?thesis by (simp add: enter_def handler_state)
next
  case (Inr lots)
  then show ?thesis
    by (simp add: enter_def handler_state split: prod.split sum.split)
qed

lemma execute_state:
  "fst (execute cfg e s eq df z) = s
   \<or> fst (execute cfg e s eq df z) = s\<lparr> last_trade_time := Some (now_trade e) \<rparr>"
proof (cases "has_position e")
  case None
  then show ?thesis
    using enter_state [of cfg e s eq]
    by (simp add: execute_def handler_state split: sum.split)
next
  case (Some pos)
  then show ?thesis
    by (simp add: execute_def handler_state split: prod.split option.split)
qed

lemma decide_state:
  "fst (decide cfg e s eq) = s
   \<or> fst (decide cfg e s eq) = s\<lparr> last_trade_time := Some (now_trade e) \<rparr>"
  using execute_state [of cfg e s eq]
  by (simp add: decide_def handler_state split: sum.split prod.split)

lemma iteration_state:
  "fst (iteration cfg e s) = s
   \<or> (\<exists>acc. mt5_account_info e = Some acc \<and>
        (fst (iteration cfg e s) = bookkeeping e (equity acc) s
         \<or> fst (iteration cfg e s)
             = (bookkeeping e (equity acc) s)\<lparr> last_trade_time := Some (now_trade e) \<rparr>))"
proof (cases "mt5_account_info e")
  case None
  then show ?thesis by (simp add: iteration_def account_def handler_state)
next
  case (Some acc)
  then show ?thesis
    using decide_state [of cfg e "bookkeeping e (equity acc) s" "equity acc"]
    by (simp add: iteration_def account_def handler_state Let_def
        split: option.split bool.split)
qed

lemma iteration_state_acc:
  assumes "mt5_account_info e = Some acc"
  shows "fst (iteration cfg e s) = bookkeeping e (equity acc) s
         \<or> fst (iteration cfg e s)
             = (bookkeeping e (equity acc) s)\<lparr> last_trade_time := Some (now_trade e) \<rparr>"
    using decide_state [of cfg e "bookkeeping e (equity acc) s" "equity acc"] assms
    by (simp add: iteration_def account_def handler_state Let_def
        split: option.split bool.split)

lemma bookkeeping_loss_streak: "loss_streak s = 0 \<Longrightarrow> loss_streak (bookkeeping e eq s) = 0"
  by (simp add: bookkeeping_def daily_reset_def init_equity_def)

lemma iteration_loss_streak:
  assumes "loss_streak s = 0" shows "loss_streak (fst (iteration cfg e s)) = 0"
  using iteration_state [of cfg e s] assms by (auto simp: bookkeeping_loss_streak)

lemma send_order_no_lock:
  "Log LossStreakLock \<notin> set (fst (send_order cfg tk broker side vol stop target))"
  by (simp add: send_order_def Let_def split: option.split)

lemma close_positions_no_lock:
  "Log LossStreakLock \<notin> set (fst (close_positions cfg e k ps))"
proof (induction ps arbitrary: k)
  case Nil
  then show ?case by simp
next
  case (Cons p ps)
  obtain effs r where so: "send_order cfg (symbol_info_tick e k) (order_send e k)
      (if ptype p = 0 then ''sell'' else ''buy'') (volume p) NoLevel NoLevel = (effs, r)"
    by (cases "send_order cfg (symbol_info_tick e k) (order_send e k)
      (if ptype p = 0 then ''sell'' else ''buy'') (volume p) NoLevel NoLevel")
  have e1: "Log LossStreakLock \<notin> set effs"
    using send_order_no_lock [of cfg "symbol_info_tick e k" "order_send e k"
        "if ptype p = 0 then ''sell'' else ''buy''" "volume p" NoLevel NoLevel] so by simp
  obtain effs' r' where cp: "close_positions cfg e (Suc k) ps = (effs', r')"
    by (cases "close_positions cfg e (Suc k) ps")
  have e2: "Log LossStreakLock \<notin> set effs'"
    using Cons.IH [of "Suc k"] cp by simp
  show ?case using so cp e1 e2 by (cases r) simp_all
qed

lemma handler_no_lock:
  "Log LossStreakLock \<notin> set effs \<Longrightarrow> Log LossStreakLock \<notin> set (snd (handler s effs err))"
  by (simp add: handler_def)

lemma enter_no_lock: "Log LossStreakLock \<notin> set (snd (enter cfg e s eq side p sd))"
proof (cases "compute_lot cfg (mt5_symbol_info e 1) eq sd")
  case (Inl err)
  then show ?thesis by (simp add: enter_def handler_def)
next
  case (Inr lots)
  obtain effs r where so: "send_order cfg (symbol_info_tick e 1) (order_send e 1) side lots
        (level_of (if side = ''sell'' then map_option (\<lambda>d. p + d) sd
                   else map_option (\<lambda>d. p - d) sd))
        (level_of (if side = ''sell'' then map_option (\<lambda>d. p - d * (15 / 10)) sd
                   else map_option (\<lambda>d. p + d * (15 / 10)) sd)) = (effs, r)"
    by (cases "send_order cfg (symbol_info_tick e 1) (order_send e 1) side lots
        (level_of (if side = ''sell'' then map_option (\<lambda>d. p + d) sd
                   else map_option (\<lambda>d. p - d) sd))
        (level_of (if side = ''sell'' then map_option (\<lambda>d. p - d * (15 / 10)) sd
                   else map_option (\<lambda>d. p + d * (15 / 10)) sd))")
  have "Log LossStreakLock \<notin> set effs"
    using send_order_no_lock [of cfg "symbol_info_tick e 1" "order_send e 1" side lots] so
    by (metis fst_conv)
  then show ?thesis using Inr so by (cases r) (simp_all add: enter_def handler_def)
qed

lemma execute_no_lock: "Log LossStreakLock \<notin> set (snd (execute cfg e s eq df z))"
proof (cases "has_position e")
  case None
  then show ?thesis
    by (simp add: execute_def handler_def enter_no_lock split: sum.split)
next
  case (Some pos)
  obtain effs r where cp: "close_positions cfg e 1 pos = (effs, r)"
    by (cases "close_positions cfg e 1 pos")
  have "Log LossStreakLock \<notin> set effs"
    using close_positions_no_lock [of cfg e 1 pos] cp by simp
  then show ?thesis using Some cp
    by (cases r) (simp_all add: execute_def handler_def)
qed

lemma decide_no_lock: "Log LossStreakLock \<notin> set (snd (decide cfg e s eq))"
  by (simp add: decide_def handler_def execute_no_lock split: sum.split prod.split)

lemma bookkeeping_rollover:
  assumes "dt_date (now_day_test e) \<noteq> day_start s"
  shows "start_equity (bookkeeping e eq s) = Some eq" "loss_streak (bookkeeping e eq s) = 0"
   "day_start (bookkeeping e eq s) = dt_date (now_day_set e)"
  using assms by (simp_all add: bookkeeping_def daily_reset_def init_equity_def)

lemma bookkeeping_same_day:
  assumes "dt_date (now_day_test e) = day_start s" "start_equity s \<noteq> None"
  shows "bookkeeping e eq s = s"
  using assms by (auto simp add: bookkeeping_def daily_reset_def init_equity_def)

subsection \<open>Loss streak\<close>

text \<open>
  C8. In every state the main loop can reach, loss\_streak is 0: it starts at 0, the daily
  reset sets it to 0 and nothing else writes it. Hence, when MAX\_LOSS\_STREAK is at least
  1, the loss-streak breaker condition loss\_streak \<ge> MAX\_LOSS\_STREAK holds in no reachable
  state, and no iteration from a reachable state logs the loss-streak lock.
\<close>

theorem loss_streak_always_zero:
  assumes "reachable cfg s"
  shows "loss_streak s = 0
         \<and> (1 \<le> MAX_LOSS_STREAK cfg \<longrightarrow>
              \<not> loss_streak s \<ge> MAX_LOSS_STREAK cfg
              \<and> Log LossStreakLock \<notin> set (snd (iteration cfg e s)))"
proof -
  have z: "loss_streak s = 0"
    using assms
  proof (induction rule: reachable.induct)
    case (start t)
    show ?case by (simp add: initial_state_def)
  next
    case (step s e)
    then show ?case by (simp add: iteration_loss_streak)
  qed
  have "Log LossStreakLock \<notin> set (snd (iteration cfg e s))" if m: "1 \<le> MAX_LOSS_STREAK cfg"
  proof (cases "mt5_account_info e")
    case None
    then show ?thesis by (simp add: iteration_def account_def handler_def)
  next
    case (Some acc)
    have "loss_streak (bookkeeping e (equity acc) s) = 0"
      using z by (rule bookkeeping_loss_streak)
    then show ?thesis using Some m
      by (simp add: iteration_def account_def handler_def Let_def decide_no_lock
          split: option.split bool.split)
  qed
  then show ?thesis using z by simp
qed

theorem loss_streak_always_zero_witness:
  "loss_streak (fst (iteration CONFIG (silent_env 9790) (initial_state (mk_datetime 100 9 0 0)))) = 0
   \<and> \<not> loss_streak (fst (iteration CONFIG (silent_env 9790) (initial_state (mk_datetime 100 9 0 0))))
         \<ge> MAX_LOSS_STREAK CONFIG
   \<and> Log LossStreakLock \<notin> set (snd (iteration CONFIG (silent_env 10000)
         (fst (iteration CONFIG (silent_env 9790) (initial_state (mk_datetime 100 9 0 0))))))"
proof -
  have r: "reachable CONFIG
      (fst (iteration CONFIG (silent_env 9790) (initial_state (mk_datetime 100 9 0 0))))"
    by (rule reachable.step) (rule reachable.start)
  have m: "1 \<le> MAX_LOSS_STREAK CONFIG" by (simp add: CONFIG_def)
  show ?thesis
    using loss_streak_always_zero [OF r, of "silent_env 10000"] m by simp
qed

subsection \<open>Day rollover\<close>

text \<open>
  C5. When the account answers and the date read by the daily-reset test differs from
  the stored day marker, the iteration sets start\_equity to the current equity,
  loss\_streak to 0 and the day marker to the current date. An iteration that follows on
  that same date changes none of start\_equity, loss\_streak, the day marker and
  peak\_equity, whatever the broker answers then.
\<close>

theorem day_rollover_once:
  assumes acc: "mt5_account_info e1 = Some acc"
    and roll: "dt_date (now_day_test e1) \<noteq> day_start s"
    and same: "dt_date (now_day_test e2) = dt_date (now_day_set e1)"
  shows "start_equity (fst (iteration cfg e1 s)) = Some (equity acc)
       \<and> loss_streak (fst (iteration cfg e1 s)) = 0
       \<and> day_start (fst (iteration cfg e1 s)) = dt_date (now_day_set e1)
       \<and> start_equity (fst (iteration cfg e2 (fst (iteration cfg e1 s)))) = Some (equity acc)
       \<and> loss_streak (fst (iteration cfg e2 (fst (iteration cfg e1 s)))) = 0
       \<and> day_start (fst (iteration cfg e2 (fst (iteration cfg e1 s)))) = dt_date (now_day_set e1)
       \<and> peak_equity (fst (iteration cfg e2 (fst (iteration cfg e1 s))))
           = peak_equity (fst (iteration cfg e1 s))"
proof -
  let ?s1 = "fst (iteration cfg e1 s)"
  have s1: "start_equity ?s1 = Some (equity acc)" "loss_streak ?s1 = 0"
     "day_start ?s1 = dt_date (now_day_set e1)"
    using iteration_state_acc [OF acc, of cfg s] bookkeeping_rollover [OF roll, of "equity acc"]
    by auto
  have bk: "bookkeeping e2 eq ?s1 = ?s1" for eq
    using bookkeeping_same_day [of e2 ?s1 eq] s1 same by simp
  have "fst (iteration cfg e2 ?s1) = ?s1
        \<or> fst (iteration cfg e2 ?s1) = ?s1\<lparr> last_trade_time := Some (now_trade e2) \<rparr>"
    using iteration_state [of cfg e2 ?s1] by (auto simp: bk)
  then show ?thesis using s1 by auto
qed

theorem day_rollover_once_witness:
  "start_equity (fst (iteration CONFIG (silent_env 9790) (initial_state (mk_datetime 99 9 0 0))))
     = Some 9790
   \<and> loss_streak (fst (iteration CONFIG (silent_env 9790) (initial_state (mk_datetime 99 9 0 0))))
     = 0
   \<and> day_start (fst (iteration CONFIG (silent_env 9790) (initial_state (mk_datetime 99 9 0 0))))
     = 100
   \<and> start_equity (fst (iteration CONFIG (silent_env 9500)
        (fst (iteration CONFIG (silent_env 9790) (initial_state (mk_datetime 99 9 0 0))))))
     = Some 9790
   \<and> day_start (fst (iteration CONFIG (silent_env 9500)
        (fst (iteration CONFIG (silent_env 9790) (initial_state (mk_datetime 99 9 0 0))))))
     = 100"
proof -
  have acc: "mt5_account_info (silent_env 9790) = Some \<lparr> balance = 10000, equity = 9790 \<rparr>"
    by (simp add: silent_env_def)
  have d100: "dt_date (mk_datetime 100 12 0 0) = 100"
    by (simp add: mk_datetime_date)
  have d99: "dt_date (mk_datetime 99 9 0 0) = 99"
    by (simp add: mk_datetime_date)
  have roll: "dt_date (now_day_test (silent_env 9790))
                \<noteq> day_start (initial_state (mk_datetime 99 9 0 0))"
    by (simp add: silent_env_def initial_state_def d100 d99)
  have same: "dt_date (now_day_test (silent_env 9500)) = dt_date (now_day_set (silent_env 9790))"
    by (simp add: silent_env_def)
  have set100: "dt_date (now_day_set (silent_env 9790)) = 100"
    by (simp add: silent_env_def d100)
  show ?thesis
    using day_rollover_once [OF acc roll same, of CONFIG] set100 by simp
qed

subsection \<open>Position sizing\<close>

text \<open>
  C1. The clamp of line 133 raises the size to volume\_min, and the floor to the volume
  step of line 136 then lowers it again: for a symbol with volume\_min = 0.15 and
  volume\_step = 0.1, an equity of 1 and a stop distance of 1 give the risk size 0.00003,
  the clamped size 0.15 and the returned volume 0.1, below volume\_min.
\<close>

theorem compute_lot_below_minimum:
  "compute_lot CONFIG (Some coarse_info) 1 (Some 1) = Inr (1 / 10)
   \<and> 1 / 10 < volume_min coarse_info"
  by (simp add: compute_lot_def np_divide_def clamp_def coarse_info_def CONFIG_def round8_def
      round_half_even_def Let_def)

subsection \<open>Safety gate\<close>

text \<open>
  C6. The safety gate checks trading hours, cooldown, volatility and spread in this order
  and answers at the first check that fails. When the hour lies outside the inclusive
  trading-hours window the answer is the trading-hours failure whatever the cooldown
  state, the bars and the quote are (also for bars and quotes on which the later checks
  would raise an exception); a cooldown failure is answered whatever the bars and the
  quote are; a volatility failure whatever the quote is. When the gate fails, the
  decision cycle leaves the state as it is and only sleeps: no exit or entry logic runs.
\<close>

theorem safety_gate_order:
  "(\<not> (fst (TRADE_HOURS cfg) \<le> dt_hour now \<and> dt_hour now \<le> snd (TRADE_HOURS cfg)) \<longrightarrow>
      safety_check cfg ltt now df tk info = Inr (False, ''outside trade hours''))
   \<and> (fst (TRADE_HOURS cfg) \<le> dt_hour now \<and> dt_hour now \<le> snd (TRADE_HOURS cfg)
        \<and> ltt = Some t \<and> seconds (dt_sub now t) < MIN_TRADE_INTERVAL cfg \<longrightarrow>
      safety_check cfg ltt now df tk info = Inr (False, ''cooldown''))
   \<and> (fst (TRADE_HOURS cfg) \<le> dt_hour now \<and> dt_hour now \<le> snd (TRADE_HOURS cfg)
        \<and> (ltt = None \<or> ltt = Some t \<and> MIN_TRADE_INTERVAL cfg \<le> seconds (dt_sub now t))
        \<and> volatility df = Inr (Some v) \<and> VOL_MAX cfg < v \<longrightarrow>
      safety_check cfg ltt now df tk info = Inr (False, ''volatility too high''))
   \<and> (fst (TRADE_HOURS cfg) \<le> dt_hour now \<and> dt_hour now \<le> snd (TRADE_HOURS cfg)
        \<and> (ltt = None \<or> ltt = Some t \<and> MIN_TRADE_INTERVAL cfg \<le> seconds (dt_sub now t))
        \<and> (volatility df = Inr None \<or> volatility df = Inr (Some v) \<and> v \<le> VOL_MAX cfg)
        \<and> tk = Some q \<and> info = Some i \<longrightarrow>
      safety_check cfg ltt now df tk info
        = (if SPREAD_MAX cfg * point i < ask q - bid q then Inr (False, ''spread too wide'')
           else Inr (True, ''ok'')))
   \<and> (copy_rates_from e (LOOKBACK cfg + 5) = Some df
        \<and> safety_check cfg (last_trade_time s) (now_gate e) df
             (symbol_info_tick e 0) (mt5_symbol_info e 0) = Inr (False, reason) \<longrightarrow>
      decide cfg e s eq = (s, [Sleep 5]))"
  by (auto simp: safety_check_def decide_def rates_def split: option.splits)

theorem safety_gate_order_witness:
  "safety_check CONFIG (Some (mk_datetime 100 2 59 0)) (mk_datetime 100 3 0 0) [] None None
     = Inr (False, ''outside trade hours'')
   \<and> safety_check CONFIG (Some (mk_datetime 100 11 59 0)) (mk_datetime 100 12 0 0) [] None None
     = Inr (False, ''cooldown'')
   \<and> safety_check CONFIG None (mk_datetime 100 12 0 0) [quiet_bar] (Some flat_tick)
        (Some plain_info) = Inr (True, ''ok'')
   \<and> decide CONFIG night_env midday_state 10000 = (midday_state, [Sleep 5])"
proof -
  have h3: "dt_hour (mk_datetime 100 3 0 0) = 3" and h12: "dt_hour (mk_datetime 100 12 0 0) = 12"
    by (simp_all add: dt_hour_def mk_datetime_def us_per_day_def us_per_second_def)
  have cd: "seconds (dt_sub (mk_datetime 100 12 0 0) (mk_datetime 100 11 59 0)) = 60"
    by (simp add: dt_sub_def mk_datetime_def us_per_day_def us_per_second_def)
  have th: "TRADE_HOURS CONFIG = (8, 22)" "MIN_TRADE_INTERVAL CONFIG = 180"
     "SPREAD_MAX CONFIG = 50" "LOOKBACK CONFIG = 120"
    by (simp_all add: CONFIG_def)
  have a: "safety_check CONFIG (Some (mk_datetime 100 2 59 0)) (mk_datetime 100 3 0 0) [] None None
     = Inr (False, ''outside trade hours'')"
    using safety_gate_order [of CONFIG "mk_datetime 100 3 0 0"
        "Some (mk_datetime 100 2 59 0)" "[]" None None]
    by (simp add: h3 th)
  have b: "safety_check CONFIG (Some (mk_datetime 100 11 59 0)) (mk_datetime 100 12 0 0) [] None None
     = Inr (False, ''cooldown'')"
    using safety_gate_order [of CONFIG "mk_datetime 100 12 0 0"
        "Some (mk_datetime 100 11 59 0)" "[]" None None "mk_datetime 100 11 59 0"]
    by (simp add: h12 th cd)
  have c: "safety_check CONFIG None (mk_datetime 100 12 0 0) [quiet_bar] (Some flat_tick)
        (Some plain_info) = Inr (True, ''ok'')"
    using safety_gate_order [of CONFIG "mk_datetime 100 12 0 0" None "[quiet_bar]"
        "Some flat_tick" "Some plain_info" _ _ flat_tick plain_info]
    by (simp add: h12 th volatility_one_bar flat_tick_def plain_info_def)
  have d: "decide CONFIG night_env midday_state 10000 = (midday_state, [Sleep 5])"
    using safety_gate_order [of CONFIG "mk_datetime 100 3 0 0" None "[]" None None
        _ _ _ _ night_env midday_state "''outside trade hours''" 10000]
    by (simp add: h3 th night_env_def midday_state_def)
  show ?thesis using a b c d by simp
qed

subsection \<open>Orders of an iteration\<close>

lemma iteration_reaches_signal:
  assumes "reaches_signal cfg e s acc df z"
  shows "iteration cfg e s = execute cfg e (bookkeeping e (equity acc) s) (equity acc) df z"
  using assms
  by (auto simp: reaches_signal_def iteration_def account_def decide_def rates_def Let_def
      split: option.splits)

lemma send_order_returns:
  assumes "tk = Some q" and "DRY_RUN cfg \<or> broker (\<lparr> action = TRADE_ACTION_DEAL, symbol = SYMBOL, req_volume = vol,
                      req_type = (if side = ''buy'' then ORDER_TYPE_BUY else ORDER_TYPE_SELL),
                      price = (if side = ''buy'' then ask q else bid q),
                      sl = stop, tp = target,
                      deviation = DEVIATION cfg, magic = MAGIC cfg,
                      comment = ''meanrev_safe'', type_filling = ORDER_FILLING_FOK \<rparr>) \<noteq> None"
  shows "\<exists>effs ok. send_order cfg tk broker side vol stop target = (effs, Inr ok)
          \<and> map order_terms (requests_of effs)
               = [(if side = ''buy'' then ORDER_TYPE_BUY else ORDER_TYPE_SELL, vol, stop, target)]
          \<and> (DRY_RUN cfg \<longrightarrow> dispatched_of effs = [] \<and> ok)"
  using assms
  by (auto simp: send_order_def Let_def requests_of_def dispatched_of_def order_terms_def)

lemma close_positions_returns:
  assumes "\<forall>k. symbol_info_tick e k \<noteq> None"
    and "DRY_RUN cfg \<or> (\<forall>k r. order_send e k r \<noteq> None)"
  shows "snd (close_positions cfg e k ps) = None
       \<and> map order_terms (requests_of (fst (close_positions cfg e k ps)))
           = map (\<lambda>p. (if ptype p = 0 then ORDER_TYPE_SELL else ORDER_TYPE_BUY,
                        volume p, NoLevel, NoLevel)) ps"
proof (induction ps arbitrary: k)
  case Nil
  show ?case by (simp add: requests_of_def)
next
  case (Cons p ps)
  have "symbol_info_tick e k \<noteq> None"
    using assms(1) by blast
  then obtain q where q: "symbol_info_tick e k = Some q"
    by auto
  have br: "DRY_RUN cfg \<or> order_send e k r \<noteq> None" for r
    using assms(2) by auto
  have "\<exists>effs ok. send_order cfg (symbol_info_tick e k) (order_send e k)
      (if ptype p = 0 then ''sell'' else ''buy'') (volume p) NoLevel NoLevel = (effs, Inr ok)
     \<and> map order_terms (requests_of effs)
       = [(if (if ptype p = 0 then ''sell'' else ''buy'') = ''buy'' then ORDER_TYPE_BUY
           else ORDER_TYPE_SELL, volume p, NoLevel, NoLevel)]
     \<and> (DRY_RUN cfg \<longrightarrow> dispatched_of effs = [] \<and> ok)"
    by (rule send_order_returns [where broker = "order_send e k" and cfg = cfg
        and side = "if ptype p = 0 then ''sell'' else ''buy''" and vol = "volume p"
        and stop = NoLevel and target = NoLevel, OF q]) (rule br)
  then obtain effs ok where so: "send_order cfg (symbol_info_tick e k) (order_send e k)
      (if ptype p = 0 then ''sell'' else ''buy'') (volume p) NoLevel NoLevel = (effs, Inr ok)"
    and t1: "map order_terms (requests_of effs)
       = [(if (if ptype p = 0 then ''sell'' else ''buy'') = ''buy'' then ORDER_TYPE_BUY
           else ORDER_TYPE_SELL, volume p, NoLevel, NoLevel)]"
    by auto
  obtain effs' r' where cp: "close_positions cfg e (Suc k) ps = (effs', r')"
    by (cases "close_positions cfg e (Suc k) ps")
  have ih: "r' = None" "map order_terms (requests_of effs')
           = map (\<lambda>p. (if ptype p = 0 then ORDER_TYPE_SELL else ORDER_TYPE_BUY,
                        volume p, NoLevel, NoLevel)) ps"
    using Cons.IH [of "Suc k"] cp by simp_all
  have app: "requests_of (effs @ effs') = requests_of effs @ requests_of effs'"
    by (simp add: requests_of_def)
  show ?case using so cp ih t1 by (simp add: app)
qed

text \<open>
  C4. On an iteration that reaches the signal with an open position: when |z| is at most
  Z\_EXIT (and the broker answers the quote queries and, outside dry-run, the orders), the
  iteration builds exactly one order request for each open position, in order, on the
  opposite side (sell for position type 0, a long; buy otherwise), of the position's
  volume, with neither stop-loss nor take-profit; when |z| exceeds Z\_EXIT the iteration
  builds no order request, leaves the state as the bookkeeping left it and only sleeps.
\<close>

theorem exit_closes_positions:
  assumes rs: "reaches_signal cfg e s acc df z"
    and pos: "has_position e = Some pos"
  shows "(\<bar>z\<bar> \<le> Z_EXIT cfg \<and> (\<forall>k. symbol_info_tick e k \<noteq> None)
            \<and> (DRY_RUN cfg \<or> (\<forall>k r. order_send e k r \<noteq> None)) \<longrightarrow>
          map order_terms (requests_of (snd (iteration cfg e s)))
            = map (\<lambda>p. (if ptype p = 0 then ORDER_TYPE_SELL else ORDER_TYPE_BUY,
                         volume p, NoLevel, NoLevel)) pos
          \<and> length (requests_of (snd (iteration cfg e s))) = length pos)
       \<and> (\<bar>z\<bar> > Z_EXIT cfg \<longrightarrow>
          iteration cfg e s = (bookkeeping e (equity acc) s, [Sleep 5])
          \<and> requests_of (snd (iteration cfg e s)) = [])"
proof (intro conjI impI)
  assume a: "\<bar>z\<bar> \<le> Z_EXIT cfg \<and> (\<forall>k. symbol_info_tick e k \<noteq> None)
            \<and> (DRY_RUN cfg \<or> (\<forall>k r. order_send e k r \<noteq> None))"
  then have z: "\<bar>z\<bar> \<le> Z_EXIT cfg" and tk: "\<forall>k. symbol_info_tick e k \<noteq> None"
    and br: "DRY_RUN cfg \<or> (\<forall>k r. order_send e k r \<noteq> None)"
    by blast+
  obtain effs r where cp: "close_positions cfg e 1 pos = (effs, r)"
    by (cases "close_positions cfg e 1 pos")
  have "snd (close_positions cfg e 1 pos) = None
       \<and> map order_terms (requests_of (fst (close_positions cfg e 1 pos)))
           = map (\<lambda>p. (if ptype p = 0 then ORDER_TYPE_SELL else ORDER_TYPE_BUY,
                        volume p, NoLevel, NoLevel)) pos"
    using tk br by (rule close_positions_returns)
  then have r: "r = None" and t: "map order_terms (requests_of effs)
        = map (\<lambda>p. (if ptype p = 0 then ORDER_TYPE_SELL else ORDER_TYPE_BUY,
                     volume p, NoLevel, NoLevel)) pos"
    unfolding cp by simp_all
  have "execute cfg e (bookkeeping e (equity acc) s) (equity acc) df z
      = ((bookkeeping e (equity acc) s)\<lparr> last_trade_time := Some (now_trade e) \<rparr>,
         Log ExitSignal # effs @ [Sleep 5])"
    using z cp by (simp add: execute_def pos r)
  then have it: "snd (iteration cfg e s) = Log ExitSignal # effs @ [Sleep 5]"
    by (simp add: iteration_reaches_signal [OF rs])
  have rq: "requests_of (Log ExitSignal # effs @ [Sleep 5]) = requests_of effs"
    by (simp add: requests_of_def)
  show m: "map order_terms (requests_of (snd (iteration cfg e s)))
            = map (\<lambda>p. (if ptype p = 0 then ORDER_TYPE_SELL else ORDER_TYPE_BUY,
                         volume p, NoLevel, NoLevel)) pos"
    unfolding it rq by (rule t)
  have "length (map order_terms (requests_of (snd (iteration cfg e s)))) = length pos"
    unfolding m by simp
  then show "length (requests_of (snd (iteration cfg e s))) = length pos"
    by simp
next
  assume "\<bar>z\<bar> > Z_EXIT cfg"
  then have "execute cfg e (bookkeeping e (equity acc) s) (equity acc) df z
      = (bookkeeping e (equity acc) s, [Sleep 5])"
    by (simp add: execute_def pos)
  then show "iteration cfg e s = (bookkeeping e (equity acc) s, [Sleep 5])"
    by (simp add: iteration_reaches_signal [OF rs])
  then show "requests_of (snd (iteration cfg e s)) = []"
    by (simp add: requests_of_def)
qed

subsection \<open>Rolling windows\<close>

lemma those_map_Some: "those (map Some xs) = Some xs"
  by (induction xs) simp_all

lemma rolling_length: "length (rolling w agg xs) = length xs"
  by (simp add: rolling_def)

lemma rolling_last:
  assumes "xs \<noteq> []"
  shows "last (rolling w agg xs)
     = (if length xs < w then None
        else (case those (drop (length xs - w) xs) of None \<Rightarrow> None | Some ys \<Rightarrow> agg ys))"
proof -
  have n: "[0..<length xs] \<noteq> []" using assms by simp
  have l: "last [0..<length xs] = length xs - Suc 0"
    using assms by (cases xs rule: rev_cases) simp_all
  have s: "Suc (length xs - Suc 0) = length xs" using assms by (cases xs) simp_all
  have t: "take w (drop (length xs - w) xs) = drop (length xs - w) xs"
    by simp
  show ?thesis
    unfolding rolling_def by (simp add: last_map [OF n] l s window_def t)
qed

lemma iloc_last_rolling_Some:
  assumes "ys \<noteq> []"
  shows "iloc_last (rolling w agg (map Some ys))
     = Inr (if length ys < w then None else agg (drop (length ys - w) ys))"
proof -
  have ne: "map Some ys \<noteq> []" using assms by simp
  have "rolling w agg (map Some ys) \<noteq> []"
    using rolling_length [of w agg "map Some ys"] assms by (metis length_0_conv length_map)
  then have "iloc_last (rolling w agg (map Some ys)) = Inr (last (rolling w agg (map Some ys)))"
    by (simp add: iloc_last_def)
  also have "last (rolling w agg (map Some ys))
      = (if length ys < w then None else agg (drop (length ys - w) ys))"
    unfolding rolling_last [OF ne] by (simp add: drop_map those_map_Some)
  finally show ?thesis .
qed

lemma atr_value:
  assumes "20 \<le> length df"
  shows "atr df = Inr (Some (sum_list (map (\<lambda>b. high b - low b) (drop (length df - 20) df)) / 20))"
proof -
  have ne: "map (\<lambda>b. high b - low b) df \<noteq> []" using assms by auto
  have "atr df = iloc_last (rolling 20 mean (map Some (map (\<lambda>b. high b - low b) df)))"
    by (simp add: atr_def comp_def)
  also have "\<dots> = Inr (mean (drop (length df - 20) (map (\<lambda>b. high b - low b) df)))"
    unfolding iloc_last_rolling_Some [OF ne] using assms by simp
  also have "mean (drop (length df - 20) (map (\<lambda>b. high b - low b) df))
      = Some (sum_list (map (\<lambda>b. high b - low b) (drop (length df - 20) df)) / 20)"
    using assms by (simp add: mean_def drop_map)
  finally show ?thesis .
qed

text \<open>
  C3. On an iteration that reaches the signal with no open position, a z-score of at
  least Z\_ENTER and dry-run enabled (the bars number at least 20, the quote query answers
  and compute\_lot returns a volume): the iteration reports one synthetic sell request,
  priced at the bid, whose stop-loss is price + stop\_dist and whose take-profit is
  price - 1.5 * stop\_dist, where price is the last close and stop\_dist is the larger of
  the mean of high - low over the last 20 bars and 0.1 percent of the price; nothing is
  handed to the broker, send\_order returns True, and the trade time is stamped.
\<close>

theorem dry_run_short_entry:
  assumes rs: "reaches_signal cfg e s acc df z"
    and z: "Z_ENTER cfg \<le> z"
    and np: "has_position e = None"
    and dry: "DRY_RUN cfg"
    and n20: "20 \<le> length df"
    and tk: "symbol_info_tick e 1 = Some q"
    and sd: "sd = max (sum_list (map (\<lambda>b. high b - low b) (drop (length df - 20) df)) / 20)
                      (close (last df) * (1 / 1000))"
    and lots: "compute_lot cfg (mt5_symbol_info e 1) (equity acc) (Some sd) = Inr lots"
  shows "iteration cfg e s
           = ((bookkeeping e (equity acc) s)\<lparr> last_trade_time := Some (now_trade e) \<rparr>,
              [Log (DryRunOrder \<lparr> action = TRADE_ACTION_DEAL, symbol = SYMBOL,
                     req_volume = lots, req_type = ORDER_TYPE_SELL, price = bid q,
                     sl = Level (close (last df) + sd),
                     tp = Level (close (last df) - sd * (15 / 10)),
                     deviation = DEVIATION cfg, magic = MAGIC cfg,
                     comment = ''meanrev_safe'', type_filling = ORDER_FILLING_FOK \<rparr>),
               Sleep 5])
         \<and> dispatched_of (snd (iteration cfg e s)) = []
         \<and> snd (send_order cfg (symbol_info_tick e 1) (order_send e 1) ''sell'' lots
                  (Level (close (last df) + sd)) (Level (close (last df) - sd * (15 / 10))))
             = Inr True"
proof -
  have ne: "df \<noteq> []" using n20 by auto
  have p: "iloc_last (map close df) = Inr (close (last df))"
    using ne by (simp add: iloc_last_def last_map)
  have a: "atr df = Inr (Some (sum_list (map (\<lambda>b. high b - low b) (drop (length df - 20) df)) / 20))"
    using n20 by (rule atr_value)
  have st: "stop_distance (Some (sum_list (map (\<lambda>b. high b - low b) (drop (length df - 20) df)) / 20))
              (close (last df)) = Some sd"
    by (simp add: stop_distance_def sd)
  have so: "send_order cfg (Some q) (order_send e 1) ''sell'' lots
                  (Level (close (last df) + sd)) (Level (close (last df) - sd * (15 / 10)))
        = ([Log (DryRunOrder \<lparr> action = TRADE_ACTION_DEAL, symbol = SYMBOL,
                     req_volume = lots, req_type = ORDER_TYPE_SELL, price = bid q,
                     sl = Level (close (last df) + sd),
                     tp = Level (close (last df) - sd * (15 / 10)),
                     deviation = DEVIATION cfg, magic = MAGIC cfg,
                     comment = ''meanrev_safe'', type_filling = ORDER_FILLING_FOK \<rparr>)], Inr True)"
    using dry by (simp add: send_order_def)
  have en: "enter cfg e (bookkeeping e (equity acc) s) (equity acc) ''sell'' (close (last df)) (Some sd)
      = ((bookkeeping e (equity acc) s)\<lparr> last_trade_time := Some (now_trade e) \<rparr>,
              [Log (DryRunOrder \<lparr> action = TRADE_ACTION_DEAL, symbol = SYMBOL,
                     req_volume = lots, req_type = ORDER_TYPE_SELL, price = bid q,
                     sl = Level (close (last df) + sd),
                     tp = Level (close (last df) - sd * (15 / 10)),
                     deviation = DEVIATION cfg, magic = MAGIC cfg,
                     comment = ''meanrev_safe'', type_filling = ORDER_FILLING_FOK \<rparr>),
               Sleep 5])"
    using lots tk so by (simp add: enter_def level_of_def)
  have it: "iteration cfg e s
      = enter cfg e (bookkeeping e (equity acc) s) (equity acc) ''sell'' (close (last df)) (Some sd)"
    using np z by (simp add: iteration_reaches_signal [OF rs] execute_def p a st)
  show ?thesis
    using it en so tk by (simp add: dispatched_of_def)
qed

subsection \<open>The example bars\<close>

lemma dropna_append: "dropna (xs @ ys) = dropna xs @ dropna ys"
  by (simp add: dropna_def)

lemma dropna_upt:
  assumes "\<forall>i<n. g i = (if i < m then None else Some (h i))"
  shows "dropna (map g [0..<n]) = map h [m..<n]"
  using assms
proof (induction n)
  case 0
  show ?case by (simp add: dropna_def)
next
  case (Suc n)
  have ih: "dropna (map g [0..<n]) = map h [m..<n]"
    using Suc by simp
  have gn: "g n = (if n < m then None else Some (h n))"
    using Suc.prems by simp
  show ?case
  proof (cases "n < m")
    case True
    then show ?thesis using ih gn by (simp add: dropna_append) (simp add: dropna_def)
  next
    case False
    then have "[m..<Suc n] = [m..<n] @ [n]" by simp
    then show ?thesis using ih gn False by (simp add: dropna_append) (simp add: dropna_def)
  qed
qed

lemma window_length:
  assumes "w \<le> Suc i" and "i < length xs"
  shows "length (window w i xs) = w"
  using assms by (simp add: window_def)

lemma detrended_index:
  assumes L: "0 < LOOKBACK cfg"
  shows "detrended cfg df
     = map (\<lambda>i. close (df ! i)
              - sum_list (map close (window (LOOKBACK cfg) i df)) / real (LOOKBACK cfg))
         [LOOKBACK cfg - 1..<length df]"
proof -
  let ?L = "LOOKBACK cfg" and ?n = "length df"
  let ?f = "\<lambda>i. if Suc i < ?L then None
              else (case those (window ?L i (map (Some \<circ> close) df)) of
                      None \<Rightarrow> None | Some ys \<Rightarrow> mean ys)"
  let ?g = "\<lambda>i. case ?f i of None \<Rightarrow> None | Some m \<Rightarrow> Some (close (df ! i) - m)"
  let ?h = "\<lambda>i. close (df ! i) - sum_list (map close (window ?L i df)) / real ?L"
  have z: "zip (map close df) (rolling ?L mean (map (Some \<circ> close) df))
      = map (\<lambda>i. (close (df ! i), ?f i)) [0..<?n]"
    by (rule nth_equalityI) (simp_all add: rolling_def)
  have d: "detrended cfg df = dropna (map ?g [0..<?n])"
    unfolding detrended_def z by (simp add: comp_def)
  have g: "\<forall>i<?n. ?g i = (if i < ?L - 1 then None else Some (?h i))"
  proof (intro allI impI)
    fix i assume i: "i < ?n"
    show "?g i = (if i < ?L - 1 then None else Some (?h i))"
    proof (cases "Suc i < ?L")
      case True
      then show ?thesis by simp
    next
      case False
      then have w: "?L \<le> Suc i" by simp
      have th: "those (window ?L i (map (Some \<circ> close) df)) = Some (map close (window ?L i df))"
        using those_map_Some [of "map close (window ?L i df)"]
        by (simp add: window_def take_map drop_map)
      have len: "length (window ?L i df) = ?L"
        using w i by (rule window_length)
      then have ne: "map close (window ?L i df) \<noteq> []" using L by auto
      have "mean (map close (window ?L i df))
          = Some (sum_list (map close (window ?L i df)) / real ?L)"
        using ne len by (simp add: mean_def)
      then show ?thesis using False L th by auto
    qed
  qed
  show ?thesis unfolding d by (rule dropna_upt [OF g])
qed

lemma upt_119_125: "[119..<125] = [119, 120, 121, 122, 123, 124::nat]"
  by (simp add: upt_rec)

lemma spike_len: "length spike_bars = 125"
  by (simp add: spike_bars_def)

lemma detrended_spike:
  "detrended CONFIG spike_bars
     = [- (119 / 12000), 179 / 6000, - (359 / 12000), - (59 / 6000), - (59 / 3000), 1 / 25]"
proof -
  have L: "LOOKBACK CONFIG = 120" by (simp add: CONFIG_def)
  show ?thesis
    by (simp add: detrended_index L spike_len upt_119_125)
      (simp add: window_def spike_bars_def nth_append spike_bar_def quiet_bar_def
        sum_list_replicate)
qed

lemma std_spike:
  "std [- (119 / 12000), 179 / 6000, - (359 / 12000), - (59 / 6000), - (59 / 3000), 1 / 25]
     = Some (169 / 6000)"
proof -
  have "sqrt ((169 / 6000)\<^sup>2) = 169 / 6000"
    by (rule real_sqrt_unique) simp_all
  then show ?thesis
    by (simp add: std_def power2_eq_square)
qed

lemma signal_z_spike: "signal_z CONFIG spike_bars = Inr (479 / 338)"
  by (simp add: signal_z_def detrended_spike zscore_def std_spike iloc_last_def mean_def)

lemma pct_change_index:
  "pct_change cs
     = (if cs = [] then []
        else None # map (\<lambda>i. if cs ! i = 0 then None else Some (cs ! Suc i / cs ! i - 1))
                        [0..<length cs - 1])"
proof (cases cs)
  case Nil
  then show ?thesis by simp
next
  case (Cons c cs')
  have "map (\<lambda>(prev, cur). if prev = 0 then None else Some (cur / prev - 1)) (zip (c # cs') cs')
      = map (\<lambda>i. if (c # cs') ! i = 0 then None
                  else Some ((c # cs') ! Suc i / (c # cs') ! i - 1)) [0..<length cs']"
    by (rule nth_equalityI) simp_all
  then show ?thesis using Cons by simp
qed

lemma std_bound:
  assumes "2 \<le> length xs" and "0 \<le> b"
    and "sum_list (map (\<lambda>x. (x - sum_list xs / real (length xs))\<^sup>2) xs)
           / (real (length xs) - 1) \<le> b\<^sup>2"
  shows "\<exists>v. std xs = Some v \<and> v \<le> b"
proof -
  have "sqrt (sum_list (map (\<lambda>x. (x - sum_list xs / real (length xs))\<^sup>2) xs)
           / (real (length xs) - 1)) \<le> b"
    using assms(2,3) by (rule real_le_lsqrt)
  then show ?thesis using assms(1) by (simp add: std_def)
qed

lemma upt_104_124:
  "[104..<124] = [104, 105, 106, 107, 108, 109, 110, 111, 112, 113, 114, 115, 116, 117, 118,
      119, 120, 121, 122, 123::nat]"
  by (simp add: upt_rec)

lemma spike_closes:
  "map close spike_bars
     = replicate 119 100 @ [9999 / 100, 10003 / 100, 9997 / 100, 9999 / 100, 9998 / 100, 10004 / 100]"
  by (simp add: spike_bars_def spike_bar_def quiet_bar_def)

lemma spike_returns:
  "drop 105 (pct_change (map close spike_bars))
     = map Some [0, 0, 0, 0, 0, 0, 0, 0, 0, 0, 0, 0, 0, 0,
         - (1 / 10000), 4 / 9999, - (6 / 10003), 2 / 9997, - (1 / 9999), 6 / 9998]"
  unfolding spike_closes
  by (simp add: pct_change_index drop_map upt_104_124 nth_append)

subsection \<open>Trade time and order results\<close>

lemma send_order_raised:
  assumes "\<forall>r. broker r \<noteq> None" and "\<forall>r. broker' r \<noteq> None"
  shows "raised (snd (send_order cfg tk broker side vol stop target))
       = raised (snd (send_order cfg tk broker' side vol stop target))"
proof (cases tk)
  case None
  then show ?thesis by (simp add: send_order_def)
next
  case (Some q)
  let ?req = "\<lparr> action = TRADE_ACTION_DEAL, symbol = SYMBOL, req_volume = vol,
                req_type = (if side = ''buy'' then ORDER_TYPE_BUY else ORDER_TYPE_SELL),
                price = (if side = ''buy'' then ask q else bid q),
                sl = stop, tp = target,
                deviation = DEVIATION cfg, magic = MAGIC cfg,
                comment = ''meanrev_safe'', type_filling = ORDER_FILLING_FOK \<rparr>"
  obtain c where c: "broker ?req = Some c" using assms(1) by fastforce
  obtain c' where c': "broker' ?req = Some c'" using assms(2) by fastforce
  show ?thesis using Some c c'
    by (cases "side = ''buy''") (simp_all add: send_order_def raised_def Let_def)
qed

lemma close_positions_raised:
  assumes "\<forall>k r. order_send e k r \<noteq> None" and "\<forall>k r. b k r \<noteq> None"
  shows "snd (close_positions cfg (e\<lparr> order_send := b \<rparr>) k ps) = snd (close_positions cfg e k ps)"
proof (induction ps arbitrary: k)
  case Nil
  show ?case by simp
next
  case (Cons p ps)
  let ?side = "if ptype p = 0 then ''sell'' else ''buy''"
  obtain effs r where so: "send_order cfg (symbol_info_tick e k) (order_send e k)
      ?side (volume p) NoLevel NoLevel = (effs, r)"
    by (cases "send_order cfg (symbol_info_tick e k) (order_send e k)
      ?side (volume p) NoLevel NoLevel")
  obtain effs2 r2 where so2: "send_order cfg (symbol_info_tick e k) (b k)
      ?side (volume p) NoLevel NoLevel = (effs2, r2)"
    by (cases "send_order cfg (symbol_info_tick e k) (b k) ?side (volume p) NoLevel NoLevel")
  have "raised (snd (send_order cfg (symbol_info_tick e k) (order_send e k)
            ?side (volume p) NoLevel NoLevel))
      = raised (snd (send_order cfg (symbol_info_tick e k) (b k)
            ?side (volume p) NoLevel NoLevel))"
    using assms by (intro send_order_raised) auto
  then have rr: "raised r = raised r2" unfolding so so2 by simp
  obtain effs' r' where cp: "close_positions cfg e (Suc k) ps = (effs', r')"
    by (cases "close_positions cfg e (Suc k) ps")
  obtain effs3 r3 where cp3: "close_positions cfg (e\<lparr> order_send := b \<rparr>) (Suc k) ps = (effs3, r3)"
    by (cases "close_positions cfg (e\<lparr> order_send := b \<rparr>) (Suc k) ps")
  have ih: "r3 = r'" using Cons.IH [of "Suc k"] cp cp3 by simp
  show ?case
    using so so2 cp cp3 ih rr
    by (cases r; cases r2) (simp_all add: raised_def)
qed

lemma enter_state_broker:
  assumes "\<forall>k r. order_send e k r \<noteq> None" and "\<forall>k r. b k r \<noteq> None"
  shows "fst (enter cfg (e\<lparr> order_send := b \<rparr>) s eq side p sd) = fst (enter cfg e s eq side p sd)"
proof (cases "compute_lot cfg (mt5_symbol_info e 1) eq sd")
  case (Inl err)
  then show ?thesis by (simp add: enter_def handler_def)
next
  case (Inr lots)
  let ?stop = "level_of (if side = ''sell'' then map_option (\<lambda>d. p + d) sd
                         else map_option (\<lambda>d. p - d) sd)"
  let ?target = "level_of (if side = ''sell'' then map_option (\<lambda>d. p - d * (15 / 10)) sd
                           else map_option (\<lambda>d. p + d * (15 / 10)) sd)"
  obtain effs r where so: "send_order cfg (symbol_info_tick e 1) (order_send e 1)
      side lots ?stop ?target = (effs, r)"
    by (cases "send_order cfg (symbol_info_tick e 1) (order_send e 1) side lots ?stop ?target")
  obtain effs2 r2 where so2: "send_order cfg (symbol_info_tick e 1) (b 1)
      side lots ?stop ?target = (effs2, r2)"
    by (cases "send_order cfg (symbol_info_tick e 1) (b 1) side lots ?stop ?target")
  have "raised (snd (send_order cfg (symbol_info_tick e 1) (order_send e 1)
            side lots ?stop ?target))
      = raised (snd (send_order cfg (symbol_info_tick e 1) (b 1) side lots ?stop ?target))"
    using assms by (intro send_order_raised) auto
  then have rr: "raised r = raised r2" unfolding so so2 by simp
  show ?thesis
    using Inr so so2 rr
    by (cases r; cases r2) (simp_all add: enter_def handler_def raised_def)
qed

lemma execute_state_broker:
  assumes "\<forall>k r. order_send e k r \<noteq> None" and "\<forall>k r. b k r \<noteq> None"
  shows "fst (execute cfg (e\<lparr> order_send := b \<rparr>) s eq df z) = fst (execute cfg e s eq df z)"
proof (cases "has_position e")
  case None
  then have "has_position (e\<lparr> order_send := b \<rparr>) = None"
    by (simp add: has_position_def)
  then show ?thesis
    using None enter_state_broker [OF assms, of cfg s eq]
    by (simp add: execute_def handler_def split: sum.split)
next
  case (Some pos)
  then have hp: "has_position (e\<lparr> order_send := b \<rparr>) = Some pos"
    by (simp add: has_position_def)
  obtain effs r where cp: "close_positions cfg e (Suc 0) pos = (effs, r)"
    by (cases "close_positions cfg e (Suc 0) pos")
  obtain effs2 r2 where cp2: "close_positions cfg (e\<lparr> order_send := b \<rparr>) (Suc 0) pos = (effs2, r2)"
    by (cases "close_positions cfg (e\<lparr> order_send := b \<rparr>) (Suc 0) pos")
  have "r2 = r"
    using close_positions_raised [OF assms, of cfg "Suc 0" pos] cp cp2 by simp
  then show ?thesis
    using Some hp cp cp2 by (cases r) (simp_all add: execute_def handler_def)
qed

lemma decide_state_broker:
  assumes "\<forall>k r. order_send e k r \<noteq> None" and "\<forall>k r. b k r \<noteq> None"
  shows "fst (decide cfg (e\<lparr> order_send := b \<rparr>) s eq) = fst (decide cfg e s eq)"
  using execute_state_broker [OF assms, of cfg s eq]
  by (simp add: decide_def rates_def handler_def split: option.split sum.split prod.split)

lemma iteration_state_broker:
  assumes "\<forall>k r. order_send e k r \<noteq> None" and "\<forall>k r. b k r \<noteq> None"
  shows "fst (iteration cfg (e\<lparr> order_send := b \<rparr>) s) = fst (iteration cfg e s)"
proof -
  have bk: "bookkeeping (e\<lparr> order_send := b \<rparr>) eq s = bookkeeping e eq s" for eq
    by (simp add: bookkeeping_def daily_reset_def)
  show ?thesis
    using decide_state_broker [OF assms, of cfg]
    by (simp add: iteration_def account_def handler_def bk Let_def
        split: option.split bool.split)
qed

lemma spike_pct_len: "length (pct_change (map close spike_bars)) = 125"
  unfolding spike_closes by (simp add: pct_change_index)

lemma volatility_spike: "\<exists>v. volatility spike_bars = Inr (Some v) \<and> v \<le> 4 / 1000"
proof -
  let ?r = "[0, 0, 0, 0, 0, 0, 0, 0, 0, 0, 0, 0, 0, 0,
         - (1 / 10000), 4 / 9999, - (6 / 10003), 2 / 9997, - (1 / 9999), 6 / 9998 :: real]"
  have ne: "pct_change (map close spike_bars) \<noteq> []"
    using spike_pct_len by auto
  have nr: "rolling 20 std (pct_change (map close spike_bars)) \<noteq> []"
    using rolling_length [of 20 std "pct_change (map close spike_bars)"] spike_pct_len
    by auto
  have l: "last (rolling 20 std (pct_change (map close spike_bars))) = std ?r"
    unfolding rolling_last [OF ne] spike_pct_len
    by (simp add: spike_returns del: those.simps add: those_map_Some [of ?r, simplified])
  obtain v where v: "std ?r = Some v" "v \<le> 4 / 1000"
    using std_bound [of ?r "4 / 1000"] by (auto simp: power2_eq_square)
  show ?thesis
    using v l nr by (simp add: volatility_def iloc_last_def)
qed

lemma calm_len: "length calm_bars = 125"
  by (simp add: calm_bars_def)

lemma calm_closes:
  "map close calm_bars
     = replicate 119 100 @ [10001 / 100, 10004 / 100, 10002 / 100, 9997 / 100, 9999 / 100, 10001 / 100]"
  by (simp add: calm_bars_def spike_bar_def quiet_bar_def)

lemma detrended_calm:
  assumes L: "LOOKBACK cfg = 120"
  shows "detrended cfg calm_bars
     = [119 / 12000, 19 / 480, 233 / 12000, - (91 / 3000), - (41 / 4000), 29 / 3000]"
  by (simp add: detrended_index L calm_len upt_119_125)
    (simp add: window_def calm_bars_def nth_append spike_bar_def quiet_bar_def
      sum_list_replicate)

lemma std_calm:
  "std [119 / 12000, 19 / 480, 233 / 12000, - (91 / 3000), - (41 / 4000), 29 / 3000]
     = Some (29 / 1200)"
proof -
  have "sqrt ((29 / 1200)\<^sup>2) = 29 / 1200"
    by (rule real_sqrt_unique) simp_all
  then show ?thesis
    by (simp add: std_def power2_eq_square)
qed

lemma signal_z_calm:
  assumes "LOOKBACK cfg = 120"
  shows "signal_z cfg calm_bars = Inr (4 / 29)"
  by (simp add: signal_z_def detrended_calm [OF assms] zscore_def std_calm iloc_last_def mean_def)

lemma calm_returns:
  "drop 105 (pct_change (map close calm_bars))
     = map Some [0, 0, 0, 0, 0, 0, 0, 0, 0, 0, 0, 0, 0, 0,
         1 / 10000, 3 / 10001, - (2 / 10004), - (5 / 10002), 2 / 9997, 2 / 9999]"
  unfolding calm_closes
  by (simp add: pct_change_index drop_map upt_104_124 nth_append)

lemma calm_pct_len: "length (pct_change (map close calm_bars)) = 125"
  unfolding calm_closes by (simp add: pct_change_index)

lemma volatility_calm: "\<exists>v. volatility calm_bars = Inr (Some v) \<and> v \<le> 4 / 1000"
proof -
  let ?r = "[0, 0, 0, 0, 0, 0, 0, 0, 0, 0, 0, 0, 0, 0,
         1 / 10000, 3 / 10001, - (2 / 10004), - (5 / 10002), 2 / 9997, 2 / 9999 :: real]"
  have ne: "pct_change (map close calm_bars) \<noteq> []"
    using calm_pct_len by auto
  have nr: "rolling 20 std (pct_change (map close calm_bars)) \<noteq> []"
    using rolling_length [of 20 std "pct_change (map close calm_bars)"] calm_pct_len
    by auto
  have l: "last (rolling 20 std (pct_change (map close calm_bars))) = std ?r"
    unfolding rolling_last [OF ne] calm_pct_len
    by (simp add: calm_returns del: those.simps add: those_map_Some [of ?r, simplified])
  obtain v where v: "std ?r = Some v" "v \<le> 4 / 1000"
    using std_bound [of ?r "4 / 1000"] by (auto simp: power2_eq_square)
  show ?thesis
    using v l nr by (simp add: volatility_def iloc_last_def)
qed

lemma signal_z_spike_cfg:
  assumes "LOOKBACK cfg = 120"
  shows "signal_z cfg spike_bars = Inr (479 / 338)"
proof -
  have "detrended cfg spike_bars = detrended CONFIG spike_bars"
    using assms by (simp add: detrended_def CONFIG_def)
  then show ?thesis using signal_z_spike by (simp add: signal_z_def)
qed

lemma gate_passes:
  assumes "volatility df = Inr (Some v)" and "v \<le> VOL_MAX cfg"
    and "TRADE_HOURS cfg = (8, 22)" and "SPREAD_MAX cfg = 50"
  shows "safety_check cfg None (mk_datetime 100 12 0 0) df (Some quote) (Some plain_info)
           = Inr (True, ''ok'')"
proof -
  have h: "dt_hour (mk_datetime 100 12 0 0) = 12"
    by (simp add: dt_hour_def mk_datetime_def us_per_day_def us_per_second_def)
  show ?thesis
    using assms by (simp add: safety_check_def h quote_def plain_info_def)
qed

lemma bookkeeping_market:
  "bookkeeping (market_env df pos rc) 10050 midday_state = midday_state"
  by (simp add: bookkeeping_def init_equity_def daily_reset_def midday_state_def
      market_env_def mk_datetime_date)

lemma reaches_signal_market:
  assumes vol: "\<exists>v. volatility df = Inr (Some v) \<and> v \<le> 4 / 1000"
    and z: "signal_z cfg df = Inr z"
    and cfg: "TRADE_HOURS cfg = (8, 22)" "SPREAD_MAX cfg = 50" "VOL_MAX cfg = 4 / 1000"
      "MAX_DAILY_LOSS cfg = 2 / 100" "MAX_LOSS_STREAK cfg = 3"
  shows "reaches_signal cfg (market_env df pos rc) midday_state
           \<lparr> balance = 10000, equity = 10050 \<rparr> df z"
proof -
  obtain v where v: "volatility df = Inr (Some v)" "v \<le> VOL_MAX cfg"
    using vol cfg by auto
  have g: "safety_check cfg None (mk_datetime 100 12 0 0) df (Some quote) (Some plain_info)
           = Inr (True, ''ok'')"
    using v cfg by (intro gate_passes) auto
  have m: "last_trade_time midday_state = None" "start_equity midday_state = Some 10000"
    "loss_streak midday_state = 0"
    by (simp_all add: midday_state_def)
  show ?thesis
    unfolding reaches_signal_def
    using g z cfg
    by (simp add: bookkeeping_market m daily_loss_hit_def) (simp add: market_env_def)
qed

lemma requests_of_simps:
  "requests_of [] = []"
  "requests_of (Sleep n # effs) = requests_of effs"
  "requests_of (Log ExitSignal # effs) = requests_of effs"
  "requests_of (Log MaxDailyLossHit # effs) = requests_of effs"
  "requests_of (Log LossStreakLock # effs) = requests_of effs"
  "requests_of (Log (ErrorMsg err) # effs) = requests_of effs"
  "requests_of (OrderSend r # effs) = r # requests_of effs"
  "requests_of (Log (DryRunOrder r) # effs) = r # requests_of effs"
  "requests_of (effs @ effs') = requests_of effs @ requests_of effs'"
  by (simp_all add: requests_of_def)

lemma handler_no_stamp:
  "last (snd (handler s effs err)) \<noteq> Sleep 5"
  by (simp add: handler_def)

lemma enter_stamp:
  assumes "last (snd (enter cfg e s eq side p sd)) = Sleep 5"
  shows "last_trade_time (fst (enter cfg e s eq side p sd)) = Some (now_trade e)"
proof (cases "compute_lot cfg (mt5_symbol_info e 1) eq sd")
  case (Inl err)
  then show ?thesis using assms by (simp add: enter_def handler_def)
next
  case (Inr lots)
  let ?stop = "level_of (if side = ''sell'' then map_option (\<lambda>d. p + d) sd
                         else map_option (\<lambda>d. p - d) sd)"
  let ?target = "level_of (if side = ''sell'' then map_option (\<lambda>d. p - d * (15 / 10)) sd
                           else map_option (\<lambda>d. p + d * (15 / 10)) sd)"
  obtain effs r where so: "send_order cfg (symbol_info_tick e 1) (order_send e 1)
      side lots ?stop ?target = (effs, r)"
    by (cases "send_order cfg (symbol_info_tick e 1) (order_send e 1) side lots ?stop ?target")
  show ?thesis
    using assms Inr so by (cases r) (simp_all add: enter_def handler_def)
qed

lemma execute_stamp:
  assumes "requests_of (snd (execute cfg e s eq df z)) \<noteq> []"
    and "last (snd (execute cfg e s eq df z)) = Sleep 5"
  shows "last_trade_time (fst (execute cfg e s eq df z)) = Some (now_trade e)"
proof (cases "has_position e")
  case None
  show ?thesis
  proof (cases "iloc_last (map close df)")
    case (Inl err)
    then show ?thesis using assms None by (simp add: execute_def handler_def)
  next
    case p: (Inr p)
    show ?thesis
    proof (cases "atr df")
      case (Inl err)
      then show ?thesis using assms None p by (simp add: execute_def handler_def)
    next
      case a: (Inr a)
      consider (short) "Z_ENTER cfg \<le> z"
        | (long) "\<not> Z_ENTER cfg \<le> z" "z \<le> - Z_ENTER cfg"
        | (wait) "\<not> Z_ENTER cfg \<le> z" "\<not> z \<le> - Z_ENTER cfg"
        by blast
      then show ?thesis
      proof cases
        case short
        then have "execute cfg e s eq df z = enter cfg e s eq ''sell'' p (stop_distance a p)"
          using None p a by (simp add: execute_def)
        then show ?thesis using assms(2) enter_stamp by simp
      next
        case long
        then have "execute cfg e s eq df z = enter cfg e s eq ''buy'' p (stop_distance a p)"
          using None p a by (simp add: execute_def)
        then show ?thesis using assms(2) enter_stamp by simp
      next
        case wait
        then have "execute cfg e s eq df z = (s, [Sleep 5])"
          using None p a by (simp add: execute_def)
        then show ?thesis using assms(1) by (simp add: requests_of_simps)
      qed
    qed
  qed
next
  case (Some pos)
  show ?thesis
  proof (cases "\<bar>z\<bar> \<le> Z_EXIT cfg")
    case False
    then have "execute cfg e s eq df z = (s, [Sleep 5])"
      using Some by (simp add: execute_def)
    then show ?thesis using assms(1) by (simp add: requests_of_simps)
  next
    case True
    obtain effs r where cp: "close_positions cfg e (Suc 0) pos = (effs, r)"
      by (cases "close_positions cfg e (Suc 0) pos")
    show ?thesis
      using assms(2) Some True cp by (cases r) (simp_all add: execute_def handler_def)
  qed
qed

lemma decide_stamp:
  assumes "requests_of (snd (decide cfg e s eq)) \<noteq> []"
    and "last (snd (decide cfg e s eq)) = Sleep 5"
  shows "last_trade_time (fst (decide cfg e s eq)) = Some (now_trade e)"
proof (cases "rates e (LOOKBACK cfg + 5)")
  case (Inl err)
  then show ?thesis using assms by (simp add: decide_def handler_def)
next
  case df: (Inr df)
  show ?thesis
  proof (cases "safety_check cfg (last_trade_time s) (now_gate e) df
                  (symbol_info_tick e 0) (mt5_symbol_info e 0)")
    case (Inl err)
    then show ?thesis using assms df by (simp add: decide_def handler_def)
  next
    case g: (Inr g)
    obtain ok reason where okr: "g = (ok, reason)" by (cases g)
    show ?thesis
    proof (cases ok)
      case False
      then show ?thesis using assms df g okr by (simp add: decide_def requests_of_simps)
    next
      case True
      show ?thesis
      proof (cases "signal_z cfg df")
        case (Inl err)
        then show ?thesis using assms df g okr True by (simp add: decide_def handler_def)
      next
        case (Inr z)
        then have "decide cfg e s eq = execute cfg e s eq df z"
          using df g okr True by (simp add: decide_def)
        then show ?thesis using assms execute_stamp by simp
      qed
    qed
  qed
qed

lemma iteration_stamp:
  assumes "requests_of (snd (iteration cfg e s)) \<noteq> []"
    and "last (snd (iteration cfg e s)) = Sleep 5"
  shows "last_trade_time (fst (iteration cfg e s)) = Some (now_trade e)"
proof (cases "mt5_account_info e")
  case None
  then show ?thesis using assms by (simp add: iteration_def account_def handler_def)
next
  case (Some acc)
  let ?s = "bookkeeping e (equity acc) s"
  have "iteration cfg e s = decide cfg e ?s (equity acc)
        \<or> requests_of (snd (iteration cfg e s)) = []"
    using Some
    by (simp add: iteration_def account_def handler_def Let_def requests_of_simps
        split: option.split bool.split)
  then show ?thesis using assms decide_stamp by auto
qed

text \<open>
  C9. Whenever an iteration builds an order request (entry or exit) and reaches its end
  without an exception, last\_trade\_time is set to the time read after the order, whatever
  send\_order returned; and as long as the broker answers every order with some return
  code, the state an iteration leaves does not depend on which return codes it answers
  (done or rejected).
\<close>

theorem trade_time_ignores_order_result:
  "(requests_of (snd (iteration cfg e s)) \<noteq> [] \<and> last (snd (iteration cfg e s)) = Sleep 5
      \<longrightarrow> last_trade_time (fst (iteration cfg e s)) = Some (now_trade e))
   \<and> ((\<forall>k r. order_send e k r \<noteq> None) \<and> (\<forall>k r. b k r \<noteq> None)
      \<longrightarrow> fst (iteration cfg (e\<lparr> order_send := b \<rparr>) s) = fst (iteration cfg e s))"
  using iteration_stamp [of cfg e s] iteration_state_broker [of e b cfg s] by blast

subsection \<open>Witnesses of the execution claims\<close>

lemma config_fields:
  "LOOKBACK CONFIG = 120" "TRADE_HOURS CONFIG = (8, 22)" "SPREAD_MAX CONFIG = 50"
  "VOL_MAX CONFIG = 4 / 1000" "MAX_DAILY_LOSS CONFIG = 2 / 100" "MAX_LOSS_STREAK CONFIG = 3"
  "Z_ENTER CONFIG = 12 / 10" "Z_EXIT CONFIG = 3 / 10" "DRY_RUN CONFIG"
  "DEVIATION CONFIG = 20" "MAGIC CONFIG = 777001" "RISK_PER_TRADE CONFIG = 3 / 1000"
  by (simp_all add: CONFIG_def)

lemma live_fields:
  "LOOKBACK LIVE = 120" "TRADE_HOURS LIVE = (8, 22)" "SPREAD_MAX LIVE = 50"
  "VOL_MAX LIVE = 4 / 1000" "MAX_DAILY_LOSS LIVE = 2 / 100" "MAX_LOSS_STREAK LIVE = 3"
  "Z_ENTER LIVE = 12 / 10" "Z_EXIT LIVE = 3 / 10" "\<not> DRY_RUN LIVE"
  "DEVIATION LIVE = 20" "MAGIC LIVE = 777001" "RISK_PER_TRADE LIVE = 3 / 1000"
  by (simp_all add: LIVE_def CONFIG_def)

lemma reaches_spike:
  "reaches_signal CONFIG (market_env spike_bars pos rc) midday_state
     \<lparr> balance = 10000, equity = 10050 \<rparr> spike_bars (479 / 338)"
  by (rule reaches_signal_market [OF volatility_spike signal_z_spike_cfg])
    (simp_all add: config_fields)

lemma reaches_calm:
  "reaches_signal CONFIG (market_env calm_bars pos rc) midday_state
     \<lparr> balance = 10000, equity = 10050 \<rparr> calm_bars (4 / 29)"
  by (rule reaches_signal_market [OF volatility_calm signal_z_calm])
    (simp_all add: config_fields)

lemma reaches_calm_live:
  "reaches_signal LIVE (market_env calm_bars pos rc) midday_state
     \<lparr> balance = 10000, equity = 10050 \<rparr> calm_bars (4 / 29)"
  by (rule reaches_signal_market [OF volatility_calm signal_z_calm])
    (simp_all add: live_fields)

lemma spike_atr:
  "sum_list (map (\<lambda>b. high b - low b) (drop (length spike_bars - 20) spike_bars)) / 20 = 3 / 10"
  by (simp add: spike_bars_def spike_bar_def quiet_bar_def sum_list_replicate)

lemma spike_last: "close (last spike_bars) = 10004 / 100"
  by (simp add: spike_bars_def spike_bar_def)

lemma spike_lots:
  "compute_lot CONFIG (Some plain_info) 10050 (Some (3 / 10)) = Inr 1"
  by (simp add: compute_lot_def np_divide_def clamp_def plain_info_def config_fields round8_def
      round_half_even_def Let_def)

theorem dry_run_short_entry_witness:
  "iteration CONFIG (market_env spike_bars None 10009) midday_state
     = (midday_state\<lparr> last_trade_time := Some (mk_datetime 100 12 0 1) \<rparr>,
        [Log (DryRunOrder \<lparr> action = TRADE_ACTION_DEAL, symbol = SYMBOL,
               req_volume = 1, req_type = ORDER_TYPE_SELL, price = 10003 / 100,
               sl = Level (10034 / 100), tp = Level (9959 / 100),
               deviation = 20, magic = 777001,
               comment = ''meanrev_safe'', type_filling = ORDER_FILLING_FOK \<rparr>),
         Sleep 5])
   \<and> dispatched_of (snd (iteration CONFIG (market_env spike_bars None 10009) midday_state)) = []"
proof -
  let ?e = "market_env spike_bars None 10009"
  have z: "Z_ENTER CONFIG \<le> 479 / 338" by (simp add: config_fields)
  have np: "has_position ?e = None" by (simp add: has_position_def market_env_def)
  have dry: "DRY_RUN CONFIG" by (simp add: config_fields)
  have n20: "20 \<le> length spike_bars" by (simp add: spike_len)
  have tk: "symbol_info_tick ?e 1 = Some quote" by (simp add: market_env_def)
  have sd: "3 / 10 = max (sum_list (map (\<lambda>b. high b - low b)
                (drop (length spike_bars - 20) spike_bars)) / 20)
              (close (last spike_bars) * (1 / 1000))"
    unfolding spike_atr spike_last by simp
  have lots: "compute_lot CONFIG (mt5_symbol_info ?e 1)
        (equity \<lparr> balance = 10000, equity = 10050 \<rparr>) (Some (3 / 10)) = Inr 1"
    using spike_lots by (simp add: market_env_def)
  have bk: "bookkeeping ?e (equity \<lparr> balance = 10000, equity = 10050 \<rparr>) midday_state
      = midday_state"
    by (simp add: bookkeeping_market)
  have nt: "now_trade ?e = mk_datetime 100 12 0 1" by (simp add: market_env_def)
  have fields: "bid quote = 10003 / 100" "close (last spike_bars) + 3 / 10 = 10034 / 100"
    "close (last spike_bars) - 3 / 10 * (15 / 10) = 9959 / 100"
    by (simp_all add: quote_def spike_last)
  show ?thesis
    using dry_run_short_entry [OF reaches_spike z np dry n20 tk sd lots]
    unfolding bk nt fields by (simp add: config_fields dispatched_of_def)
qed

theorem exit_closes_positions_witness:
  "map order_terms (requests_of (snd (iteration CONFIG
       (market_env calm_bars (Some [long_position, short_position]) 10009) midday_state)))
     = [(ORDER_TYPE_SELL, 5 / 100, NoLevel, NoLevel), (ORDER_TYPE_BUY, 3 / 100, NoLevel, NoLevel)]
   \<and> iteration CONFIG (market_env spike_bars (Some [long_position]) 10009) midday_state
     = (midday_state, [Sleep 5])"
proof -
  let ?e = "market_env calm_bars (Some [long_position, short_position]) 10009"
  let ?h = "market_env spike_bars (Some [long_position]) 10009"
  have pe: "has_position ?e = Some [long_position, short_position]"
    by (simp add: has_position_def market_env_def)
  have ph: "has_position ?h = Some [long_position]"
    by (simp add: has_position_def market_env_def)
  have tk: "\<forall>k. symbol_info_tick ?e k \<noteq> None" by (simp add: market_env_def)
  have a: "map order_terms (requests_of (snd (iteration CONFIG ?e midday_state)))
     = [(ORDER_TYPE_SELL, 5 / 100, NoLevel, NoLevel), (ORDER_TYPE_BUY, 3 / 100, NoLevel, NoLevel)]"
    using exit_closes_positions [OF reaches_calm pe] tk
    by (simp add: config_fields long_position_def short_position_def)
  have b: "iteration CONFIG ?h midday_state = (midday_state, [Sleep 5])"
    using exit_closes_positions [OF reaches_spike ph]
    by (simp add: config_fields bookkeeping_market)
  show ?thesis using a b by simp
qed

lemma live_exit:
  "iteration LIVE (market_env calm_bars (Some [long_position]) rc) midday_state
     = (midday_state\<lparr> last_trade_time := Some (mk_datetime 100 12 0 1) \<rparr>,
        [Log ExitSignal,
         OrderSend \<lparr> action = TRADE_ACTION_DEAL, symbol = SYMBOL, req_volume = 5 / 100,
           req_type = ORDER_TYPE_SELL, price = 10003 / 100, sl = NoLevel, tp = NoLevel,
           deviation = 20, magic = 777001, comment = ''meanrev_safe'',
           type_filling = ORDER_FILLING_FOK \<rparr>,
         Sleep 5])"
proof -
  let ?e = "market_env calm_bars (Some [long_position]) rc"
  have pe: "has_position ?e = Some [long_position]"
    by (simp add: has_position_def market_env_def)
  have cp: "close_positions LIVE ?e (Suc 0) [long_position]
     = ([OrderSend \<lparr> action = TRADE_ACTION_DEAL, symbol = SYMBOL, req_volume = 5 / 100,
           req_type = ORDER_TYPE_SELL, price = 10003 / 100, sl = NoLevel, tp = NoLevel,
           deviation = 20, magic = 777001, comment = ''meanrev_safe'',
           type_filling = ORDER_FILLING_FOK \<rparr>], None)"
    by (simp add: send_order_def live_fields market_env_def long_position_def quote_def)
  show ?thesis
    unfolding iteration_reaches_signal [OF reaches_calm_live]
    by (simp add: execute_def pe cp live_fields bookkeeping_market del: close_positions.simps)
      (simp add: market_env_def)
qed

theorem trade_time_ignores_order_result_witness:
  "last_trade_time (fst (iteration LIVE
       (market_env calm_bars (Some [long_position]) 10006) midday_state))
     = Some (mk_datetime 100 12 0 1)
   \<and> fst (iteration LIVE ((market_env calm_bars (Some [long_position]) 10006)
              \<lparr> order_send := (\<lambda>k r. Some TRADE_RETCODE_DONE) \<rparr>) midday_state)
     = fst (iteration LIVE (market_env calm_bars (Some [long_position]) 10006) midday_state)"
proof -
  let ?e = "market_env calm_bars (Some [long_position]) 10006"
  have rq: "requests_of (snd (iteration LIVE ?e midday_state)) \<noteq> []"
    and l: "last (snd (iteration LIVE ?e midday_state)) = Sleep 5"
    by (simp_all add: live_exit requests_of_simps)
  have br: "\<forall>k r. order_send ?e k r \<noteq> None" by (simp add: market_env_def)
  have nt: "now_trade ?e = mk_datetime 100 12 0 1" by (simp add: market_env_def)
  show ?thesis
    using trade_time_ignores_order_result [of LIVE ?e midday_state
        "\<lambda>k r. Some TRADE_RETCODE_DONE"] rq l br nt
    by simp
qed

end
